theory Spec2Isabelle
  imports Complex_Main "HOL-Library.Log_Nat"
begin

section \<open>JavaScript numbers\<close>

text \<open>
  A JavaScript number is an IEEE 754 double: a finite value, given here by the rational
  it denotes (zero without its sign), an infinity, or \<open>NaN\<close>. Every arithmetic
  operation rounds its exact result to the nearest double, ties to even, with subnormal
  results below \<open>2^-1022\<close> and an infinity from \<open>2^1024 - 2^970\<close> on. Counters and
  millisecond amounts, which stay far below \<open>2^53\<close>, are modelled as \<open>nat\<close> or
  \<open>int\<close>; a \<open>Date\<close> is its \<open>getTime()\<close> value in milliseconds.
\<close>

datatype number = Num rat | PosInfinity | NegInfinity | NaN

definition pow2 :: "int \<Rightarrow> rat" where
  "pow2 e = (if e \<ge> 0 then 2 ^ nat e else 1 / 2 ^ nat (- e))"

text \<open>For positive \<open>x\<close>, the exponent \<open>k\<close> with \<open>2^k \<le> x < 2^(k+1)\<close>.\<close>

definition floorlog2 :: "rat \<Rightarrow> int" where
  "floorlog2 x = (if x \<ge> 1 then bitlen \<lfloor>x\<rfloor> - 1 else - bitlen (\<lceil>1 / x\<rceil> - 1))"

definition roundHalfEven :: "rat \<Rightarrow> int" where
  "roundHalfEven x =
     (let n = \<lfloor>x\<rfloor>; r = x - of_int n
      in if r < 1 / 2 then n else if r > 1 / 2 then n + 1 else if even n then n else n + 1)"

text \<open>
  The double nearest to a rational: its significand has 53 bits, or fewer when the
  exponent is held at the least one, \<open>-1074\<close>.
\<close>

definition round64 :: "rat \<Rightarrow> number" where
  "round64 x =
     (if x = 0 then Num 0
      else let e = max (floorlog2 \<bar>x\<bar> - 52) (- 1074);
               v = of_int (roundHalfEven (x / pow2 e)) * pow2 e
           in if v \<ge> 2 ^ 1024 then PosInfinity
              else if v \<le> - (2 ^ 1024) then NegInfinity
              else Num v)"

definition js_sign :: "number \<Rightarrow> int" where
  "js_sign x =
     (case x of
        Num a \<Rightarrow> (if a > 0 then 1 else if a < 0 then - 1 else 0)
      | PosInfinity \<Rightarrow> 1
      | NegInfinity \<Rightarrow> - 1
      | NaN \<Rightarrow> 0)"

definition js_mul :: "number \<Rightarrow> number \<Rightarrow> number" where
  "js_mul x y =
     (case (x, y) of
        (Num a, Num b) \<Rightarrow> round64 (a * b)
      | (NaN, _) \<Rightarrow> NaN
      | (_, NaN) \<Rightarrow> NaN
      | _ \<Rightarrow> (if js_sign x * js_sign y > 0 then PosInfinity
              else if js_sign x * js_sign y < 0 then NegInfinity
              else NaN))"

definition js_sub :: "number \<Rightarrow> number \<Rightarrow> number" where
  "js_sub x y =
     (case (x, y) of
        (Num a, Num b) \<Rightarrow> round64 (a - b)
      | (NaN, _) \<Rightarrow> NaN
      | (_, NaN) \<Rightarrow> NaN
      | (PosInfinity, PosInfinity) \<Rightarrow> NaN
      | (NegInfinity, NegInfinity) \<Rightarrow> NaN
      | (PosInfinity, _) \<Rightarrow> PosInfinity
      | (NegInfinity, _) \<Rightarrow> NegInfinity
      | (Num a, PosInfinity) \<Rightarrow> NegInfinity
      | (Num a, NegInfinity) \<Rightarrow> PosInfinity)"

text \<open>Division; a zero divisor is taken as \<open>+0\<close>.\<close>

definition js_div :: "number \<Rightarrow> number \<Rightarrow> number" where
  "js_div x y =
     (case (x, y) of
        (Num a, Num b) \<Rightarrow>
          if b = 0 then (if a > 0 then PosInfinity else if a < 0 then NegInfinity else NaN)
          else round64 (a / b)
      | (NaN, _) \<Rightarrow> NaN
      | (_, NaN) \<Rightarrow> NaN
      | (Num a, _) \<Rightarrow> Num 0
      | (_, Num b) \<Rightarrow> (if js_sign x * (if b < 0 then - 1 else 1) > 0 then PosInfinity
                      else NegInfinity)
      | _ \<Rightarrow> NaN)"

text \<open>\<open>Math.floor\<close>.\<close>

definition js_floor :: "number \<Rightarrow> number" where
  "js_floor x = (case x of Num a \<Rightarrow> Num (of_int \<lfloor>a\<rfloor>) | _ \<Rightarrow> x)"

text \<open>
  \<open>x || d\<close> on an optional number: \<open>undefined\<close>, \<open>0\<close> and \<open>NaN\<close> are falsy.
  \<open>toNumber\<close> is the value of an optional number in arithmetic.
\<close>

definition js_or :: "number option \<Rightarrow> number \<Rightarrow> number" where
  "js_or x d =
     (case x of
        None \<Rightarrow> d
      | Some (Num a) \<Rightarrow> if a = 0 then d else Num a
      | Some NaN \<Rightarrow> d
      | Some PosInfinity \<Rightarrow> PosInfinity
      | Some NegInfinity \<Rightarrow> NegInfinity)"

definition toNumber :: "number option \<Rightarrow> number" where
  "toNumber x = (case x of None \<Rightarrow> NaN | Some v \<Rightarrow> v)"

text \<open>
  \<open>BigInt(x)\<close>: the integer, or a \<open>RangeError\<close> when \<open>x\<close> is not an integer; the
  argument \<open>str\<close> is \<open>Number.prototype.toString\<close>.
\<close>

definition toBigInt :: "(number \<Rightarrow> string) \<Rightarrow> number \<Rightarrow> string + int" where
  "toBigInt str x =
     (case x of
        Num a \<Rightarrow>
          if a = of_int \<lfloor>a\<rfloor> then Inr \<lfloor>a\<rfloor>
          else Inl (''The number '' @ str x
                    @ '' cannot be converted to a BigInt because it is not an integer'')
      | _ \<Rightarrow> Inl (''The number '' @ str x
                  @ '' cannot be converted to a BigInt because it is not an integer''))"

section \<open>Shared data (src/types/profile.ts)\<close>

datatype network = MAINNET | REGTEST

record ProfileLock =
  profileName :: string
  pid :: nat
  timestamp :: int
  hostname :: string

record Snipe =
  snipe_id :: string
  tokenAddress :: string
  amountBtc :: string
  encryptedMnemonic :: string
  isActive :: bool

record ProfileSettings =
  defaultAmount :: string
  ps_maxRetries :: nat
  ps_retryDelay :: nat
  enableDiscordAlerts :: bool
  ps_slippageTolerance :: number
  ps_network :: network

record Profile =
  name :: string
  createdAt :: int
  lastUsed :: int
  snipes :: "Snipe list"
  settings :: ProfileSettings

text \<open>
  JavaScript's \<open>x || d\<close> on an optional counter or millisecond amount
  (\<open>undefined\<close> and \<open>0\<close> are falsy) and \<open>x ?? d\<close> (only \<open>undefined\<close> gives the
  default).
\<close>

definition or_default :: "'a::zero option \<Rightarrow> 'a \<Rightarrow> 'a" where
  "or_default x d = (case x of None \<Rightarrow> d | Some v \<Rightarrow> if v = 0 then d else v)"

definition nullish :: "'a option \<Rightarrow> 'a \<Rightarrow> 'a" where
  "nullish x d = (case x of None \<Rightarrow> d | Some v \<Rightarrow> v)"

text \<open>
  The fields of \<open>AppConfig\<close> that the detector and the engine read through
  \<open>config.get\<close>, and what \<open>ConfigManager.parseConfiguration\<close> gives them when no
  environment variable is set.
\<close>

record AppConfig =
  defaultNetwork :: network
  mainnetPollInterval :: nat
  maxRetryAttempts :: nat
  initialRetryDelay :: nat
  cfg_maxRetryDelay :: nat

definition defaultAppConfig :: AppConfig where
  "defaultAppConfig =
     \<lparr>defaultNetwork = REGTEST, mainnetPollInterval = 2000, maxRetryAttempts = 20,
      initialRetryDelay = 2000, cfg_maxRetryDelay = 5000\<rparr>"

section \<open>Lock manager (src/utils/lock-manager.ts)\<close>

text \<open>
  The operating system as the lock manager sees it: the clock, the identity of the
  running process, and the answer of \<open>process.kill(pid, 0)\<close>, which returns normally
  when the process exists and throws otherwise (\<open>ESRCH\<close>: no such process,
  \<open>EPERM\<close>: no permission to signal it).
\<close>

datatype kill_result = ProcessExists | ESRCH | EPERM

record os_env =
  now :: int
  process_pid :: nat
  os_hostname :: string
  process_kill :: "nat \<Rightarrow> kill_result"

text \<open>
  The \<open>.lock\<close> file of a profile directory: absent, present but not readable as a
  lock (\<open>fs.readFile\<close> or \<open>JSON.parse\<close> throws), or holding a lock record.
  The profile directory also holds the configuration file and its backups (each with
  its modification time). The three flags say whether the corresponding file-system
  call throws in this directory.
\<close>

datatype lock_file = NoLockFile | UnreadableLockFile | LockContent ProfileLock

record profile_dir =
  lockFile :: lock_file
  configFile :: "Profile option"
  backups :: "(int \<times> Profile) list"
  lock_write_fails :: bool
  unlink_fails :: bool
  config_write_fails :: bool

definition STALE_LOCK_TIMEOUT :: int where
  "STALE_LOCK_TIMEOUT = 5 * 60 * 1000"

text \<open>\<open>readLockFile\<close>: every error of reading or parsing is caught and gives \<open>null\<close>.\<close>

definition readLockFile :: "profile_dir \<Rightarrow> ProfileLock option" where
  "readLockFile d =
     (case lockFile d of
        LockContent lock \<Rightarrow> Some lock
      | NoLockFile \<Rightarrow> None
      | UnreadableLockFile \<Rightarrow> None)"

text \<open>\<open>isLockStale\<close>: too old, or \<open>process.kill(lock.pid, 0)\<close> throws.\<close>

definition isLockStale :: "os_env \<Rightarrow> ProfileLock \<Rightarrow> bool" where
  "isLockStale env lock =
     (let lockAge = now env - timestamp lock in
      if lockAge > STALE_LOCK_TIMEOUT then True
      else (case process_kill env (pid lock) of
              ProcessExists \<Rightarrow> False
            | ESRCH \<Rightarrow> True
            | EPERM \<Rightarrow> True))"

text \<open>\<open>removeLock\<close>: unlink the lock file, ignoring every error.\<close>

definition removeLock :: "profile_dir \<Rightarrow> profile_dir" where
  "removeLock d = (if unlink_fails d then d else d\<lparr>lockFile := NoLockFile\<rparr>)"

text \<open>\<open>fs.writeFile(lockFilePath, ...)\<close>: throws, or replaces the content of the file.\<close>

definition writeLockFile :: "profile_dir \<Rightarrow> ProfileLock \<Rightarrow> string + profile_dir" where
  "writeLockFile d lock =
     (if lock_write_fails d then Inl ''EIO'' else Inr (d\<lparr>lockFile := LockContent lock\<rparr>))"

text \<open>
  \<open>acquireLock\<close>: the body of the \<open>try\<close> block returns the directory it leaves behind
  together with either the error thrown or the boolean returned; the \<open>catch\<close> block
  turns every error into \<open>false\<close>.
\<close>

definition acquireLock_try :: "os_env \<Rightarrow> profile_dir \<Rightarrow> string \<Rightarrow> profile_dir \<times> (string + bool)" where
  "acquireLock_try env d pname =
     (let create = (\<lambda>d1.
            let lock = \<lparr>profileName = pname, pid = process_pid env,
                        timestamp = now env, hostname = os_hostname env\<rparr>
            in (case writeLockFile d1 lock of
                  Inl e \<Rightarrow> (d1, Inl e)
                | Inr d2 \<Rightarrow> (d2, Inr True)))
      in (case readLockFile d of
            Some existingLock \<Rightarrow>
              if \<not> isLockStale env existingLock then (d, Inr False)
              else create (removeLock d)
          | None \<Rightarrow> create d))"

definition acquireLock :: "os_env \<Rightarrow> profile_dir \<Rightarrow> string \<Rightarrow> profile_dir \<times> bool" where
  "acquireLock env d pname =
     (case acquireLock_try env d pname of
        (d', Inr b) \<Rightarrow> (d', b)
      | (d', Inl e) \<Rightarrow> (d', False))"

text \<open>\<open>releaseLock\<close>: unlink; a missing file (\<open>ENOENT\<close>) counts as released.\<close>

definition releaseLock :: "profile_dir \<Rightarrow> profile_dir \<times> bool" where
  "releaseLock d =
     (if lockFile d = NoLockFile then (d, True)
      else if unlink_fails d then (d, False)
      else (d\<lparr>lockFile := NoLockFile\<rparr>, True))"

definition isLocked :: "os_env \<Rightarrow> profile_dir \<Rightarrow> bool" where
  "isLocked env d =
     (case readLockFile d of
        None \<Rightarrow> False
      | Some lock \<Rightarrow> \<not> isLockStale env lock)"

text \<open>The lock record that \<open>acquireLock\<close> writes for the calling process.\<close>

definition own_lock :: "os_env \<Rightarrow> string \<Rightarrow> ProfileLock" where
  "own_lock env pname =
     \<lparr>profileName = pname, pid = process_pid env, timestamp = now env, hostname = os_hostname env\<rparr>"

text \<open>A lock record names the calling process as its holder.\<close>

definition held_by_caller :: "os_env \<Rightarrow> ProfileLock \<Rightarrow> bool" where
  "held_by_caller env lock = (pid lock = process_pid env \<and> hostname lock = os_hostname env)"

section \<open>Profile manager: saving (src/core/profile-manager.ts, src/utils/file-manager.ts)\<close>

text \<open>\<open>FileManager.backupFile\<close>: copy the file when it exists; errors are only logged.\<close>

definition backupFile :: "int \<Rightarrow> profile_dir \<Rightarrow> profile_dir" where
  "backupFile t d =
     (case configFile d of
        None \<Rightarrow> d
      | Some p \<Rightarrow> if config_write_fails d then d else d\<lparr>backups := backups d @ [(t, p)]\<rparr>)"

text \<open>
  \<open>FileManager.writeJsonFile\<close>: write a temporary file and rename it over the target;
  on an error the temporary file is removed and the error is thrown again.
\<close>

definition writeJsonFile :: "profile_dir \<Rightarrow> Profile \<Rightarrow> string + profile_dir" where
  "writeJsonFile d p =
     (if config_write_fails d then Inl ''Failed to write JSON file''
      else Inr (d\<lparr>configFile := Some p\<rparr>))"

text \<open>
  \<open>FileManager.cleanupBackups\<close>: sort the backups by modification time, newest first
  (the sort is stable), keep the first five and unlink the others, ignoring errors.
\<close>

definition cleanupBackups :: "profile_dir \<Rightarrow> profile_dir" where
  "cleanupBackups d =
     (let sorted = sort_key (\<lambda>b. - fst b) (backups d)
      in if unlink_fails d then d else d\<lparr>backups := take 5 sorted\<rparr>)"

text \<open>
  \<open>ProfileManager.saveProfile\<close>: stamp \<open>lastUsed\<close>, back up, write, prune backups.
  Any error is thrown again with the prefix \<open>Failed to save profile\<close>. The lock file
  is never consulted.
\<close>

definition saveProfile :: "os_env \<Rightarrow> profile_dir \<Rightarrow> Profile \<Rightarrow> profile_dir \<times> (string + unit)" where
  "saveProfile env d profile =
     (let profile1 = profile\<lparr>lastUsed := now env\<rparr>;
          d1 = backupFile (now env) d
      in (case writeJsonFile d1 profile1 of
            Inl e \<Rightarrow> (d1, Inl (''Failed to save profile: '' @ e))
          | Inr d2 \<Rightarrow> (cleanupBackups d2, Inr ())))"

section \<open>Network detector (src/core/network-detector.ts)\<close>

record NetworkStatus =
  isOnline :: bool
  ns_network :: network
  lastCheck :: int
  latency :: "nat option"
  consecutiveFailures :: nat

record NetworkStatusEvent =
  ev_isOnline :: bool
  ev_network :: network
  ev_timestamp :: int
  ev_latency :: "nat option"
  ev_previousStatus :: "bool option"

text \<open>The events of the emitter, by name, in the order of their emission.\<close>

datatype detector_event =
    MonitoringStarted network
  | MonitoringStopped
  | NetworkSwitched network
  | StatusUpdate NetworkStatusEvent
  | NetworkOnline NetworkStatusEvent
  | MainnetOnline NetworkStatusEvent
  | NetworkOffline NetworkStatusEvent
  | MainnetOffline NetworkStatusEvent
  | NetworkDegraded NetworkStatusEvent nat
  | NetworkSlow NetworkStatusEvent nat

text \<open>
  The detector object: its options, its private fields (\<open>failureCounter\<close> is the
  field \<open>this.consecutiveFailures\<close>, \<open>pollTimer\<close> the delay of the pending timer),
  the network the client points at, and what it has emitted and logged as warnings.
\<close>

record NetworkDetector =
  clientNetwork :: network
  pollInterval :: nat
  maxFailures :: nat
  healthcheckTimeout :: nat
  isPolling :: bool
  pollTimer :: "nat option"
  currentStatus :: NetworkStatus
  failureCounter :: nat
  emitted :: "detector_event list"
  warnings :: "string list"

text \<open>
  What one health check meets: the time at which it starts, and the fate of
  \<open>flashnetClient.ping()\<close>, which resolves after some milliseconds with a response of
  the given \<open>status\<close>, rejects after some milliseconds, or never settles.
\<close>

datatype ping_outcome = Resolves nat string | Rejects nat | NeverSettles

record check_input =
  startedAt :: int
  ping :: ping_outcome

text \<open>
  \<open>Promise.race([pingPromise, timeoutPromise])\<close>: the response and the elapsed time
  when the ping resolves before the timeout, otherwise the elapsed time at which the
  race rejects.
\<close>

definition race :: "nat \<Rightarrow> ping_outcome \<Rightarrow> nat + (string \<times> nat)" where
  "race timeout p =
     (case p of
        Resolves t status \<Rightarrow> if t < timeout then Inr (status, t) else Inl timeout
      | Rejects t \<Rightarrow> if t < timeout then Inl t else Inl timeout
      | NeverSettles \<Rightarrow> Inl timeout)"

definition emit :: "detector_event \<Rightarrow> NetworkDetector \<Rightarrow> NetworkDetector" where
  "emit e d = d\<lparr>emitted := emitted d @ [e]\<rparr>"

definition emit_all :: "detector_event list \<Rightarrow> NetworkDetector \<Rightarrow> NetworkDetector" where
  "emit_all es d = d\<lparr>emitted := emitted d @ es\<rparr>"

definition statusEvent :: "NetworkDetector \<Rightarrow> bool \<Rightarrow> nat \<Rightarrow> NetworkStatusEvent" where
  "statusEvent d previousStatus lat =
     \<lparr>ev_isOnline = isOnline (currentStatus d),
      ev_network = ns_network (currentStatus d),
      ev_timestamp = lastCheck (currentStatus d),
      ev_latency = Some lat,
      ev_previousStatus = Some previousStatus\<rparr>"

text \<open>\<open>emitStatusEvents\<close>: the events it emits, in order.\<close>

definition statusEvents :: "NetworkDetector \<Rightarrow> bool \<Rightarrow> nat \<Rightarrow> detector_event list" where
  "statusEvents d previousStatus lat =
     (let ev = statusEvent d previousStatus lat;
          cur = currentStatus d
      in [StatusUpdate ev]
         @ (if previousStatus \<noteq> isOnline cur then
              (if isOnline cur then
                 [NetworkOnline ev] @ (if ns_network cur = MAINNET then [MainnetOnline ev] else [])
               else
                 [NetworkOffline ev] @ (if ns_network cur = MAINNET then [MainnetOffline ev] else []))
            else [])
         @ (if failureCounter d \<ge> maxFailures d \<and> \<not> isOnline cur
            then [NetworkDegraded ev (failureCounter d)] else [])
         @ (if lat > 10000 then [NetworkSlow ev lat] else []))"

definition emitStatusEvents :: "bool \<Rightarrow> nat \<Rightarrow> NetworkDetector \<Rightarrow> NetworkDetector" where
  "emitStatusEvents previousStatus lat d = emit_all (statusEvents d previousStatus lat) d"

text \<open>
  \<open>performHealthCheck\<close> is an \<open>async\<close> function with one \<open>await\<close>, that of
  \<open>Promise.race\<close>, so it runs in two steps, and other code of the detector, another
  health check included, may run between them. The first step, \<open>beginHealthCheck\<close>,
  reads the clock and \<open>this.currentStatus.isOnline\<close>, starts the ping and the
  timeout, and suspends; what it keeps for its second step is the check timestamp,
  the status it read, and the pending race, given here by how it will settle.
\<close>

record pending_check =
  pc_checkTimestamp :: int
  pc_previousStatus :: bool
  pc_race :: "nat + (string \<times> nat)"

definition beginHealthCheck :: "NetworkDetector \<Rightarrow> check_input \<Rightarrow> pending_check" where
  "beginHealthCheck d c =
     \<lparr>pc_checkTimestamp = startedAt c,
      pc_previousStatus = isOnline (currentStatus d),
      pc_race = race (healthcheckTimeout d) (ping c)\<rparr>"

text \<open>
  The second step, \<open>finishHealthCheck\<close>, runs when the race has settled, on the
  detector as it is then: the first branch is the rest of the \<open>try\<close> block after a
  response arrived in time, the second the \<open>catch\<close> block. The listeners of the events
  are taken not to throw.
\<close>

definition finishHealthCheck :: "NetworkDetector \<Rightarrow> pending_check \<Rightarrow> NetworkDetector" where
  "finishHealthCheck d p =
     (let checkTimestamp = pc_checkTimestamp p;
          previousStatus = pc_previousStatus p
      in (case pc_race p of
            Inr (status, lat) \<Rightarrow>
              let online = (status = ''ok'');
                  d1 = d\<lparr>currentStatus :=
                         \<lparr>isOnline = online,
                          ns_network = ns_network (currentStatus d),
                          lastCheck = checkTimestamp,
                          latency = Some lat,
                          consecutiveFailures = (if online then 0 else failureCounter d + 1)\<rparr>\<rparr>;
                  d2 = (if online then d1\<lparr>failureCounter := 0\<rparr>
                        else d1\<lparr>failureCounter := failureCounter d1 + 1\<rparr>)
              in emitStatusEvents previousStatus lat d2
          | Inl lat \<Rightarrow>
              let d1 = d\<lparr>failureCounter := failureCounter d + 1\<rparr>;
                  d2 = d1\<lparr>currentStatus :=
                         \<lparr>isOnline = False,
                          ns_network = ns_network (currentStatus d1),
                          lastCheck = checkTimestamp,
                          latency = Some lat,
                          consecutiveFailures = failureCounter d1\<rparr>\<rparr>
              in emitStatusEvents previousStatus lat d2))"

text \<open>
  A health check during which nothing else touches the detector: its second step runs
  on the detector its first step saw. The checks of the polling loop are of this kind
  as long as nothing else calls into the detector, since the loop schedules the next
  check only when the previous one has finished.
\<close>

definition performHealthCheck :: "NetworkDetector \<Rightarrow> check_input \<Rightarrow> NetworkDetector" where
  "performHealthCheck d c = finishHealthCheck d (beginHealthCheck d c)"




definition scheduleNextCheck :: "NetworkDetector \<Rightarrow> NetworkDetector" where
  "scheduleNextCheck d = (if \<not> isPolling d then d else d\<lparr>pollTimer := Some (pollInterval d)\<rparr>)"

text \<open>The callback of the timer set by \<open>scheduleNextCheck\<close>.\<close>

definition timerFires :: "NetworkDetector \<Rightarrow> check_input \<Rightarrow> NetworkDetector" where
  "timerFires d c =
     (if isPolling d then scheduleNextCheck (performHealthCheck (d\<lparr>pollTimer := None\<rparr>) c)
      else d\<lparr>pollTimer := None\<rparr>)"

text \<open>
  \<open>startMonitoring\<close>: returns the detector it leaves behind and how the call ends,
  \<open>Inl\<close> for a thrown error and \<open>Inr ()\<close> for a normal return. The guard for a
  detector that is already polling logs a warning and returns.
\<close>

definition startMonitoring ::
  "NetworkDetector \<Rightarrow> network \<Rightarrow> check_input \<Rightarrow> NetworkDetector \<times> (string + unit)" where
  "startMonitoring d nw c =
     (if isPolling d then
        (d\<lparr>warnings := warnings d @ [''Network monitoring already started'']\<rparr>, Inr ())
      else
        let d1 = d\<lparr>clientNetwork := nw\<rparr>;
            d2 = d1\<lparr>currentStatus := (currentStatus d1)\<lparr>ns_network := nw\<rparr>\<rparr>;
            d3 = d2\<lparr>isPolling := True\<rparr>;
            d4 = d3\<lparr>failureCounter := 0\<rparr>;
            d5 = emit (MonitoringStarted nw) d4;
            d6 = performHealthCheck d5 c
        in (scheduleNextCheck d6, Inr ()))"

definition stopMonitoring :: "NetworkDetector \<Rightarrow> NetworkDetector" where
  "stopMonitoring d =
     (if \<not> isPolling d then d
      else emit MonitoringStopped (d\<lparr>isPolling := False, pollTimer := None\<rparr>))"

definition checkNow :: "NetworkDetector \<Rightarrow> check_input \<Rightarrow> NetworkDetector \<times> NetworkStatus" where
  "checkNow d c = (let d1 = performHealthCheck d c in (d1, currentStatus d1))"

text \<open>
  \<open>switchNetwork\<close>: the restart of a detector that was polling is not awaited; its
  first check is taken here as one that nothing overlaps.
\<close>

definition switchNetwork :: "NetworkDetector \<Rightarrow> network \<Rightarrow> check_input \<Rightarrow> NetworkDetector" where
  "switchNetwork d nw c =
     (let wasMonitoring = isPolling d;
          d1 = (if wasMonitoring then stopMonitoring d else d);
          d2 = d1\<lparr>clientNetwork := nw\<rparr>;
          d3 = d2\<lparr>currentStatus := (currentStatus d2)\<lparr>ns_network := nw\<rparr>\<rparr>;
          d4 = d3\<lparr>failureCounter := 0\<rparr>;
          d5 = emit (NetworkSwitched nw) d4
      in if wasMonitoring then fst (startMonitoring d5 nw c) else d5)"

text \<open>The detector as its constructor leaves it, at time \<open>t\<close>.\<close>

record NetworkDetectorOptions =
  opt_pollInterval :: "nat option"
  opt_maxFailures :: "nat option"
  opt_healthcheckTimeout :: "nat option"

definition newNetworkDetector :: "AppConfig \<Rightarrow> NetworkDetectorOptions \<Rightarrow> int \<Rightarrow> NetworkDetector" where
  "newNetworkDetector cfg options t =
     \<lparr>clientNetwork = defaultNetwork cfg,
      pollInterval = or_default (opt_pollInterval options) (mainnetPollInterval cfg),
      maxFailures = or_default (opt_maxFailures options) 3,
      healthcheckTimeout = or_default (opt_healthcheckTimeout options) 5000,
      isPolling = False,
      pollTimer = None,
      currentStatus = \<lparr>isOnline = False, ns_network = defaultNetwork cfg, lastCheck = t,
                       latency = None, consecutiveFailures = 0\<rparr>,
      failureCounter = 0,
      emitted = [],
      warnings = []\<rparr>"

text \<open>
  A sequence of health checks, one after the other, and the status each of them
  computes.
\<close>

fun performHealthChecks :: "NetworkDetector \<Rightarrow> check_input list \<Rightarrow> NetworkDetector" where
  "performHealthChecks d [] = d"
| "performHealthChecks d (c # cs) = performHealthChecks (performHealthCheck d c) cs"

fun statuses :: "NetworkDetector \<Rightarrow> check_input list \<Rightarrow> NetworkStatus list" where
  "statuses d [] = []"
| "statuses d (c # cs) =
     currentStatus (performHealthCheck d c) # statuses (performHealthCheck d c) cs"






section \<open>Snipe engine (class \<open>SnipeEngine\<close>, src/unnamed/part_001)\<close>

subsection \<open>Options and their defaults\<close>

record SnipeExecutionOptions =
  opt_maxRetries :: "nat option"
  opt_retryDelay :: "nat option"
  opt_maxRetryDelay :: "nat option"
  opt_slippageTolerance :: "number option"
  opt_executeInParallel :: "bool option"

record ExecutionOptions =
  maxRetries :: nat
  retryDelay :: nat
  maxRetryDelay :: nat
  slippageTolerance :: number
  executeInParallel :: bool

text \<open>The \<open>executionOptions\<close> that the constructor of \<open>SnipeEngine\<close> computes.\<close>

definition newExecutionOptions :: "AppConfig \<Rightarrow> SnipeExecutionOptions \<Rightarrow> ExecutionOptions" where
  "newExecutionOptions cfg options =
     \<lparr>maxRetries = or_default (opt_maxRetries options) (maxRetryAttempts cfg),
      retryDelay = or_default (opt_retryDelay options) (initialRetryDelay cfg),
      maxRetryDelay = or_default (opt_maxRetryDelay options) (cfg_maxRetryDelay cfg),
      slippageTolerance = js_or (opt_slippageTolerance options) (Num 10),
      executeInParallel = nullish (opt_executeInParallel options) True\<rparr>"

definition noOptions :: SnipeExecutionOptions where
  "noOptions =
     \<lparr>opt_maxRetries = None, opt_retryDelay = None, opt_maxRetryDelay = None,
      opt_slippageTolerance = None, opt_executeInParallel = None\<rparr>"

subsection \<open>The wallet manager and what it exchanges with the engine\<close>

record FlashNetWallet =
  fw_address :: string
  fw_network :: network

record Pool =
  poolId :: string
  assetATokenPublicKey :: string
  assetBTokenPublicKey :: string
  tokenPublicKey :: "string option"

text \<open>
  The answer of \<open>listPools\<close>: an array, or an object whose \<open>pools\<close> property is
  missing, an array, or some other truthy value.
\<close>

datatype pools_property = PoolsMissing | PoolsArray "Pool list" | PoolsOther

datatype pools_response = ResponseArray "Pool list" | ResponseObject pools_property

record SimulateParams =
  sim_poolId :: string
  sim_assetInTokenPublicKey :: string
  sim_assetOutTokenPublicKey :: string
  sim_amountIn :: number

record Simulation =
  sim_amountOut :: "number option"

record SwapParams =
  swap_poolId :: string
  swap_assetInTokenPublicKey :: string
  swap_assetOutTokenPublicKey :: string
  swap_amountIn :: int
  minAmountOut :: int
  maxSlippageBps :: number

record SwapResult =
  txId :: "string option"
  swap_transactionHash :: "string option"
  swap_amountOut :: "number option"

record SnipeResult =
  snipeId :: string
  success :: bool
  transactionHash :: "string option"
  tokensReceived :: "string option"
  actualPrice :: "number option"
  slippage :: "number option"
  error :: "string option"
  executionTime :: int
  attempts :: nat

text \<open>
  What one turn of one snipe's retry loop meets: the answers of the wallet manager
  (\<open>Inl\<close> carries the message of the error thrown), the reading of \<open>Date.now()\<close>,
  and the library functions \<open>parseFloat\<close> and \<open>Number.prototype.toString\<close>.
\<close>

record World =
  restoreWallet :: "string \<Rightarrow> network \<Rightarrow> string + FlashNetWallet"
  getBalance :: "FlashNetWallet \<Rightarrow> string + nat"
  listPools :: "FlashNetWallet \<Rightarrow> string + pools_response"
  simulateSwap :: "FlashNetWallet \<Rightarrow> SimulateParams \<Rightarrow> string + Simulation"
  executeSwap :: "FlashNetWallet \<Rightarrow> SwapParams \<Rightarrow> string + SwapResult"
  dateNow :: int
  parseFloat :: "string \<Rightarrow> number"
  numberToString :: "number \<Rightarrow> string"

text \<open>
  What the engine does to the outside: the events it emits for a snipe, the delays it
  sleeps, and the swaps it submits through \<open>walletManager.executeSwap\<close>. The
  listeners of the events are taken not to throw.
\<close>

datatype snipe_event =
    Started Snipe
  | PoolFound Pool
  | SwapSimulated Simulation
  | SwapExecuted SwapResult
  | Completed SnipeResult
  | Failed SnipeResult
  | Retrying nat nat string

datatype effect = Emit string snipe_event | Sleep nat | Submit SwapParams

type_synonym wallets = "string \<rightharpoonup> FlashNetWallet"

subsection \<open>One attempt\<close>

text \<open>\<open>getOrRestoreWallet\<close> on the cache \<open>activeWallets\<close>, keyed by \<open>snipe.id\<close>.\<close>

definition getOrRestoreWallet ::
  "network \<Rightarrow> World \<Rightarrow> Snipe \<Rightarrow> wallets \<Rightarrow> wallets \<times> (string + FlashNetWallet)" where
  "getOrRestoreWallet targetNetwork w snipe cache =
     (case cache (snipe_id snipe) of
        Some wallet \<Rightarrow> (cache, Inr wallet)
      | None \<Rightarrow>
          (case restoreWallet w (encryptedMnemonic snipe) targetNetwork of
             Inl e \<Rightarrow> (cache, Inl e)
           | Inr wallet \<Rightarrow> (cache(snipe_id snipe \<mapsto> wallet), Inr wallet)))"

text \<open>The array of pools in the answer of \<open>listPools\<close>, if there is one.\<close>

definition poolsOf :: "pools_response \<Rightarrow> Pool list option" where
  "poolsOf r =
     (case r of
        ResponseArray ps \<Rightarrow> Some ps
      | ResponseObject PoolsMissing \<Rightarrow> Some []
      | ResponseObject (PoolsArray ps) \<Rightarrow> Some ps
      | ResponseObject PoolsOther \<Rightarrow> None)"

definition poolMatches :: "Snipe \<Rightarrow> Pool \<Rightarrow> bool" where
  "poolMatches snipe p =
     (assetATokenPublicKey p = tokenAddress snipe
      \<or> assetBTokenPublicKey p = tokenAddress snipe
      \<or> tokenPublicKey p = Some (tokenAddress snipe)
      \<or> poolId p = tokenAddress snipe)"

text \<open>\<open>String.prototype.includes\<close>.\<close>

fun str_includes :: "string \<Rightarrow> string \<Rightarrow> bool" where
  "str_includes [] sub = (sub = [])"
| "str_includes (c # cs) sub = (take (length sub) (c # cs) = sub \<or> str_includes cs sub)"

text \<open>
  The minimum output with slippage, a number:
  \<open>Math.floor((simulation.amountOut || 0) * (1 - slippageTolerance / 100))\<close>.
\<close>

definition minOutput :: "ExecutionOptions \<Rightarrow> Simulation \<Rightarrow> number" where
  "minOutput opts simulation =
     js_floor (js_mul (js_or (sim_amountOut simulation) (Num 0))
                      (js_sub (Num 1) (js_div (slippageTolerance opts) (Num 100))))"

text \<open>The result reported for a successful swap.\<close>

definition successResult ::
  "World \<Rightarrow> Snipe \<Rightarrow> int \<Rightarrow> nat \<Rightarrow> number \<Rightarrow> Simulation \<Rightarrow> SwapResult \<Rightarrow> SnipeResult" where
  "successResult w snipe startTime n amountInSats simulation swapResult =
     \<lparr>snipeId = snipe_id snipe,
      success = True,
      transactionHash =
        (case txId swapResult of
           Some t \<Rightarrow> if t \<noteq> [] then Some t else swap_transactionHash swapResult
         | None \<Rightarrow> swap_transactionHash swapResult),
      tokensReceived = map_option (numberToString w) (swap_amountOut swapResult),
      actualPrice = Some (js_div amountInSats (js_or (swap_amountOut swapResult) (Num 1))),
      slippage =
        Some (js_mul
                (js_div (js_sub (toNumber (sim_amountOut simulation))
                                (js_or (swap_amountOut swapResult) (Num 0)))
                        (toNumber (sim_amountOut simulation)))
                (Num 100)),
      error = None,
      executionTime = dateNow w - startTime,
      attempts = n\<rparr>"

text \<open>
  The body of the \<open>try\<close> block for attempt number \<open>n\<close>, from the balance check
  on, for the wallet that \<open>getOrRestoreWallet\<close> returned: its effects in order, and
  either the message of the error it throws or the result it returns. The argument of
  \<open>executeSwap\<close> is built field by field: \<open>BigInt(amountInSats)\<close> and then
  \<open>BigInt(minAmountOut)\<close> throw before the call when their number is not an integer.
\<close>

definition swapWithWallet ::
  "ExecutionOptions \<Rightarrow> World \<Rightarrow> Snipe \<Rightarrow> int \<Rightarrow> nat \<Rightarrow> FlashNetWallet
     \<Rightarrow> effect list \<times> (string + SnipeResult)" where
  "swapWithWallet opts w snipe startTime n wallet =
     (case getBalance w wallet of
        Inl e \<Rightarrow> ([], Inl e)
      | Inr balance \<Rightarrow>
     (case listPools w wallet of
        Inl e \<Rightarrow> ([], Inl e)
      | Inr poolsResponse \<Rightarrow>
     (case poolsOf poolsResponse of
        None \<Rightarrow> ([], Inl ''Failed to retrieve pools list from FlashNet API'')
      | Some pools \<Rightarrow>
     (case find (poolMatches snipe) pools of
        None \<Rightarrow> ([], Inl (''Pool not found for token '' @ tokenAddress snipe))
      | Some pool \<Rightarrow>
          let isBtcAssetA = (assetATokenPublicKey pool = ''BTC''
                             \<or> str_includes (assetATokenPublicKey pool) ''btc'');
              assetInToken = (if isBtcAssetA then assetATokenPublicKey pool
                              else assetBTokenPublicKey pool);
              assetOutToken = (if isBtcAssetA then assetBTokenPublicKey pool
                               else assetATokenPublicKey pool);
              amountInSats = js_floor (js_mul (parseFloat w (amountBtc snipe)) (Num 100000000));
              found = Emit (snipe_id snipe) (PoolFound pool)
          in
     (case simulateSwap w wallet
             \<lparr>sim_poolId = poolId pool,
              sim_assetInTokenPublicKey = assetInToken,
              sim_assetOutTokenPublicKey = assetOutToken,
              sim_amountIn = amountInSats\<rparr> of
        Inl e \<Rightarrow> ([found], Inl e)
      | Inr simulation \<Rightarrow>
          let simulated = Emit (snipe_id snipe) (SwapSimulated simulation);
              minAmountOutNumber = minOutput opts simulation
          in
     (case toBigInt (numberToString w) amountInSats of
        Inl e \<Rightarrow> ([found, simulated], Inl e)
      | Inr amountIn \<Rightarrow>
     (case toBigInt (numberToString w) minAmountOutNumber of
        Inl e \<Rightarrow> ([found, simulated], Inl e)
      | Inr minAmount \<Rightarrow>
          let params = \<lparr>swap_poolId = poolId pool,
                        swap_assetInTokenPublicKey = assetInToken,
                        swap_assetOutTokenPublicKey = assetOutToken,
                        swap_amountIn = amountIn,
                        minAmountOut = minAmount,
                        maxSlippageBps = js_mul (slippageTolerance opts) (Num 100)\<rparr>
          in
     (case executeSwap w wallet params of
        Inl e \<Rightarrow> ([found, simulated, Submit params], Inl e)
      | Inr swapResult \<Rightarrow>
          let result = successResult w snipe startTime n amountInSats simulation swapResult
          in ([found, simulated, Submit params,
               Emit (snipe_id snipe) (SwapExecuted swapResult),
               Emit (snipe_id snipe) (Completed result)],
              Inr result)))))))))"

text \<open>
  The whole body of the \<open>try\<close> block for attempt number \<open>n\<close>: the wallet cache it
  leaves, its effects, and the error thrown or the result returned.
\<close>

definition attemptSnipe ::
  "ExecutionOptions \<Rightarrow> network \<Rightarrow> World \<Rightarrow> Snipe \<Rightarrow> int \<Rightarrow> nat \<Rightarrow> wallets
     \<Rightarrow> wallets \<times> effect list \<times> (string + SnipeResult)" where
  "attemptSnipe opts targetNetwork w snipe startTime n cache =
     (case getOrRestoreWallet targetNetwork w snipe cache of
        (cache1, Inl e) \<Rightarrow> (cache1, [], Inl e)
      | (cache1, Inr wallet) \<Rightarrow>
          (case swapWithWallet opts w snipe startTime n wallet of
             (effs, outcome) \<Rightarrow> (cache1, effs, outcome)))"

subsection \<open>The retry loop of one snipe\<close>

text \<open>
  The local variables of one call of \<open>executeSingleSnipe\<close>, the effects it has had so
  far, and its result once it has returned. \<open>t_world n\<close> is what turn \<open>n\<close> of this
  call meets; turn 0 is the entry of the call.
\<close>

record snipe_call =
  t_snipe :: Snipe
  t_world :: "nat \<Rightarrow> World"
  t_startTime :: int
  t_attempts :: nat
  t_lastError :: "string option"
  t_effects :: "effect list"
  t_result :: "SnipeResult option"

text \<open>The entry of \<open>executeSingleSnipe\<close>, up to the \<open>while\<close>.\<close>

definition enterCall :: "Snipe \<Rightarrow> (nat \<Rightarrow> World) \<Rightarrow> snipe_call" where
  "enterCall snipe world =
     \<lparr>t_snipe = snipe, t_world = world, t_startTime = dateNow (world 0), t_attempts = 0,
      t_lastError = None, t_effects = [Emit (snipe_id snipe) (Started snipe)],
      t_result = None\<rparr>"

definition backoff :: "ExecutionOptions \<Rightarrow> nat \<Rightarrow> nat" where
  "backoff opts n = min (retryDelay opts * 2 ^ (n - 1)) (maxRetryDelay opts)"

text \<open>The result reported when all attempts failed.\<close>

definition failureResult :: "World \<Rightarrow> snipe_call \<Rightarrow> SnipeResult" where
  "failureResult w t =
     \<lparr>snipeId = snipe_id (t_snipe t),
      success = False,
      transactionHash = None,
      tokensReceived = None,
      actualPrice = None,
      slippage = None,
      error = t_lastError t,
      executionTime = dateNow w - t_startTime t,
      attempts = t_attempts t\<rparr>"

text \<open>
  One turn of the loop of a call that has not returned: when \<open>attempts < maxRetries\<close>,
  one pass through the body (the attempt, and on an error the \<open>catch\<close> block with its
  delay when attempts remain); otherwise the code after the loop. A call that has
  returned does nothing more.
\<close>

definition loopTurn ::
  "ExecutionOptions \<Rightarrow> network \<Rightarrow> wallets \<times> snipe_call \<Rightarrow> wallets \<times> snipe_call" where
  "loopTurn opts targetNetwork s =
     (case s of (cache, t) \<Rightarrow>
        if t_result t \<noteq> None then (cache, t)
        else if t_attempts t < maxRetries opts then
          let n = t_attempts t + 1;
              w = t_world t n
          in (case attemptSnipe opts targetNetwork w (t_snipe t) (t_startTime t) n cache of
                (cache1, effs, Inr result) \<Rightarrow>
                  (cache1, t\<lparr>t_attempts := n, t_effects := t_effects t @ effs,
                              t_result := Some result\<rparr>)
              | (cache1, effs, Inl e) \<Rightarrow>
                  (cache1, t\<lparr>t_attempts := n, t_lastError := Some e,
                              t_effects := t_effects t @ effs
                                @ (if n < maxRetries opts
                                   then [Emit (snipe_id (t_snipe t)) (Retrying n (backoff opts n) e),
                                         Sleep (backoff opts n)]
                                   else [])\<rparr>))
        else
          let result = failureResult (t_world t (t_attempts t + 1)) t
          in (cache, t\<lparr>t_effects := t_effects t @ [Emit (snipe_id (t_snipe t)) (Failed result)],
                        t_result := Some result\<rparr>))"

text \<open>The number of turns a call may still need.\<close>

definition turnsLeft :: "ExecutionOptions \<Rightarrow> snipe_call \<Rightarrow> nat" where
  "turnsLeft opts t =
     (if t_result t \<noteq> None then 0 else Suc (maxRetries opts - t_attempts t))"

text \<open>
  \<open>executeSingleSnipe\<close> run on its own from a given turn on: the loop is turned until the
  call returns. It gives the wallet cache it leaves, all its effects and its result.
\<close>

function runCall ::
  "ExecutionOptions \<Rightarrow> network \<Rightarrow> wallets \<times> snipe_call \<Rightarrow> wallets \<times> effect list \<times> SnipeResult" where
  "runCall opts targetNetwork s =
     (case t_result (snd s) of
        Some result \<Rightarrow> (fst s, t_effects (snd s), result)
      | None \<Rightarrow> runCall opts targetNetwork (loopTurn opts targetNetwork s))"
  by pat_completeness auto
termination
  apply (relation "measure (\<lambda>(opts, targetNetwork, s). turnsLeft opts (snd s))")
   apply simp
  apply (auto simp: turnsLeft_def loopTurn_def Let_def split: prod.splits sum.splits)
  done

declare runCall.simps [simp del]

definition executeSingleSnipe ::
  "ExecutionOptions \<Rightarrow> network \<Rightarrow> (nat \<Rightarrow> World) \<Rightarrow> Snipe \<Rightarrow> wallets
     \<Rightarrow> wallets \<times> effect list \<times> SnipeResult" where
  "executeSingleSnipe opts targetNetwork world snipe cache =
     runCall opts targetNetwork (cache, enterCall snipe world)"

subsection \<open>Batches\<close>

text \<open>
  \<open>executeSnipesSequentially\<close>: each call runs to its end before the next one starts;
  \<open>worlds i\<close> is what the call for the snipe at position \<open>i\<close> meets.
\<close>

fun executeSnipesSequentially ::
  "ExecutionOptions \<Rightarrow> network \<Rightarrow> (nat \<Rightarrow> nat \<Rightarrow> World) \<Rightarrow> nat \<Rightarrow> wallets \<Rightarrow> Snipe list
     \<Rightarrow> wallets \<times> effect list \<times> SnipeResult list" where
  "executeSnipesSequentially opts targetNetwork worlds i cache [] = (cache, [], [])"
| "executeSnipesSequentially opts targetNetwork worlds i cache (snipe # rest) =
     (case executeSingleSnipe opts targetNetwork (worlds i) snipe cache of
        (cache1, effs1, result) \<Rightarrow>
          (case executeSnipesSequentially opts targetNetwork worlds (Suc i) cache1 rest of
             (cache2, effs2, results) \<Rightarrow> (cache2, effs1 @ effs2, result # results)))"

text \<open>
  \<open>executeSnipesInParallel\<close>: \<open>snipes.map\<close> enters one call per snipe, in order; the
  event loop then interleaves the calls, all sharing the cache \<open>activeWallets\<close>. A
  schedule names, turn after turn, the position of the call that runs next; the remote
  calls of one turn are taken as one step. \<open>Promise.all\<close> resolves, with the results in
  the order of the calls, once every call has returned.
\<close>

definition parTurn ::
  "ExecutionOptions \<Rightarrow> network \<Rightarrow> nat \<Rightarrow> wallets \<times> snipe_call list \<Rightarrow> wallets \<times> snipe_call list" where
  "parTurn opts targetNetwork i s =
     (case s of (cache, ts) \<Rightarrow>
        if i < length ts then
          (case loopTurn opts targetNetwork (cache, ts ! i) of
             (cache1, t1) \<Rightarrow> (cache1, ts[i := t1]))
        else (cache, ts))"

definition enterCalls :: "(nat \<Rightarrow> nat \<Rightarrow> World) \<Rightarrow> Snipe list \<Rightarrow> snipe_call list" where
  "enterCalls worlds sns = map (\<lambda>i. enterCall (sns ! i) (worlds i)) [0..<length sns]"

definition runSchedule ::
  "ExecutionOptions \<Rightarrow> network \<Rightarrow> nat list \<Rightarrow> wallets \<times> snipe_call list \<Rightarrow> wallets \<times> snipe_call list" where
  "runSchedule opts targetNetwork schedule s = fold (parTurn opts targetNetwork) schedule s"

definition executeSnipesInParallel ::
  "ExecutionOptions \<Rightarrow> network \<Rightarrow> (nat \<Rightarrow> nat \<Rightarrow> World) \<Rightarrow> nat list \<Rightarrow> wallets \<Rightarrow> Snipe list
     \<Rightarrow> wallets \<times> SnipeResult list option" where
  "executeSnipesInParallel opts targetNetwork worlds schedule cache sns =
     (case runSchedule opts targetNetwork schedule (cache, enterCalls worlds sns) of
        (cache1, ts) \<Rightarrow> (cache1, those (map t_result ts)))"

text \<open>
  The engine object and \<open>executeSnipes\<close>. The outcome is \<open>Some (Inl message)\<close> for a
  thrown error, \<open>Some (Inr results)\<close> for a normal return, and \<open>None\<close> while the
  schedule has not yet let every call return. The \<open>finally\<close> block runs when the batch
  settles.
\<close>

record SnipeEngine =
  isExecuting :: bool
  executionOptions :: ExecutionOptions
  activeWallets :: wallets

definition executeSnipes ::
  "network \<Rightarrow> (nat \<Rightarrow> nat \<Rightarrow> World) \<Rightarrow> nat list \<Rightarrow> SnipeEngine \<Rightarrow> Profile
     \<Rightarrow> SnipeEngine \<times> (string + SnipeResult list) option" where
  "executeSnipes targetNetwork worlds schedule eng profile =
     (if isExecuting eng then (eng, Some (Inl ''Snipe execution already in progress''))
      else
        let eng1 = eng\<lparr>isExecuting := True\<rparr>;
            activeSnipes = filter isActive (snipes profile);
            finished = eng1\<lparr>isExecuting := False, activeWallets := Map.empty\<rparr>
        in if executeInParallel (executionOptions eng1) then
             (case executeSnipesInParallel (executionOptions eng1) targetNetwork worlds schedule
                     (activeWallets eng1) activeSnipes of
                (cache1, Some results) \<Rightarrow> (finished, Some (Inr results))
              | (cache1, None) \<Rightarrow> (eng1\<lparr>activeWallets := cache1\<rparr>, None))
           else
             (case executeSnipesSequentially (executionOptions eng1) targetNetwork worlds 0
                     (activeWallets eng1) activeSnipes of
                (cache1, effs, results) \<Rightarrow> (finished, Some (Inr results))))"

subsection \<open>Reading a list of effects\<close>

fun is_Sleep :: "effect \<Rightarrow> bool" where
  "is_Sleep (Sleep ms) = True"
| "is_Sleep e = False"

text \<open>The effects of the \<open>catch\<close> block: the \<open>retrying\<close> event and the delay.\<close>

fun is_retry :: "effect \<Rightarrow> bool" where
  "is_retry (Sleep ms) = True"
| "is_retry (Emit i (Retrying n ms e)) = True"
| "is_retry e = False"

text \<open>What the \<open>catch\<close> block does after failed attempt \<open>n\<close> when attempts remain.\<close>

definition retryEffects :: "ExecutionOptions \<Rightarrow> string \<Rightarrow> nat \<Rightarrow> string \<Rightarrow> effect list" where
  "retryEffects opts i n e = [Emit i (Retrying n (backoff opts n) e), Sleep (backoff opts n)]"

text \<open>The result of a call, once there, carries the id of the call's snipe.\<close>

definition result_named :: "snipe_call \<Rightarrow> bool" where
  "result_named t = (case t_result t of None \<Rightarrow> True | Some r \<Rightarrow> snipeId r = snipe_id (t_snipe t))"

section \<open>Concrete inputs\<close>

text \<open>
  A process with pid 42 on host \<open>host\<close> at time 1000 ms; pid 42 exists, pid 1 exists
  but may not be signalled, no other pid exists.
\<close>

definition env0 :: os_env where
  "env0 = \<lparr>now = 1000, process_pid = 42, os_hostname = ''host'',
            process_kill = (\<lambda>p. if p = 42 then ProcessExists else if p = 1 then EPERM else ESRCH)\<rparr>"

text \<open>An empty, writable profile directory.\<close>

definition dir0 :: profile_dir where
  "dir0 = \<lparr>lockFile = NoLockFile, configFile = None, backups = [],
            lock_write_fails = False, unlink_fails = False, config_write_fails = False\<rparr>"

text \<open>The same directory, locked a moment ago by the calling process itself.\<close>

definition dir_self_locked :: profile_dir where
  "dir_self_locked = dir0\<lparr>lockFile := LockContent (own_lock env0 ''p'')\<rparr>"

text \<open>A lock left behind by pid 7, which no longer exists.\<close>

definition dead_lock :: ProfileLock where
  "dead_lock = \<lparr>profileName = ''p'', pid = 7, timestamp = 900, hostname = ''host''\<rparr>"

text \<open>A fresh lock whose holder, pid 1, cannot be probed.\<close>

definition eperm_lock :: ProfileLock where
  "eperm_lock = \<lparr>profileName = ''p'', pid = 1, timestamp = 900, hostname = ''host''\<rparr>"

definition settings0 :: ProfileSettings where
  "settings0 = \<lparr>defaultAmount = ''0.05'', ps_maxRetries = 20, ps_retryDelay = 2000,
                 enableDiscordAlerts = True, ps_slippageTolerance = Num 10, ps_network = REGTEST\<rparr>"

definition profile0 :: Profile where
  "profile0 = \<lparr>name = ''p'', createdAt = 0, lastUsed = 0, snipes = [], settings = settings0\<rparr>"

text \<open>
  A detector fresh from its constructor, built without options on the main network;
  health checks that fail, time out and succeed; and the detector after
  \<open>startMonitoring\<close> met a failing first check.
\<close>

definition det0 :: NetworkDetector where
  "det0 = newNetworkDetector (defaultAppConfig\<lparr>defaultNetwork := MAINNET\<rparr>)
            \<lparr>opt_pollInterval = None, opt_maxFailures = None, opt_healthcheckTimeout = None\<rparr> 0"

definition failing :: "int \<Rightarrow> check_input" where
  "failing t = \<lparr>startedAt = t, ping = Rejects 30\<rparr>"

definition timing_out :: "int \<Rightarrow> check_input" where
  "timing_out t = \<lparr>startedAt = t, ping = Resolves 6000 ''ok''\<rparr>"

definition succeeding :: "int \<Rightarrow> check_input" where
  "succeeding t = \<lparr>startedAt = t, ping = Resolves 25 ''ok''\<rparr>"

definition det_polling :: NetworkDetector where
  "det_polling = fst (startMonitoring det0 MAINNET (failing 0))"



text \<open>
  Three active snipes and an inactive one, each spending half a bitcoin; a pool for each
  token; a remote side that is up (every simulation and every swap gives 1000), the
  same with a simulation that gives another output, and one that is down.
\<close>

definition snipeOf :: "string \<Rightarrow> bool \<Rightarrow> Snipe" where
  "snipeOf i active =
     \<lparr>snipe_id = i, tokenAddress = ''token-'' @ i, amountBtc = ''0.5'',
      encryptedMnemonic = ''mnemonic-'' @ i, isActive = active\<rparr>"

definition poolOf :: "string \<Rightarrow> Pool" where
  "poolOf i =
     \<lparr>poolId = ''pool-'' @ i, assetATokenPublicKey = ''token-'' @ i,
      assetBTokenPublicKey = ''BTC'', tokenPublicKey = None\<rparr>"

definition walletOf :: "string \<Rightarrow> FlashNetWallet" where
  "walletOf m = \<lparr>fw_address = m, fw_network = REGTEST\<rparr>"

definition swapped :: SwapResult where
  "swapped = \<lparr>txId = Some ''tx'', swap_transactionHash = None, swap_amountOut = Some (Num 1000)\<rparr>"

definition worldUp :: "int \<Rightarrow> World" where
  "worldUp t =
     \<lparr>restoreWallet = (\<lambda>m nw. Inr (walletOf m)),
      getBalance = (\<lambda>w. Inr 100000),
      listPools = (\<lambda>w. Inr (ResponseArray [poolOf ''A'', poolOf ''B'', poolOf ''C''])),
      simulateSwap = (\<lambda>w p. Inr \<lparr>sim_amountOut = Some (Num 1000)\<rparr>),
      executeSwap = (\<lambda>w p. Inr swapped),
      dateNow = t,
      parseFloat = (\<lambda>s. Num (1 / 2)),
      numberToString = (\<lambda>x. if x = Num 1000 then ''1000'' else ''?'')\<rparr>"

definition worldSimulating :: "rat \<Rightarrow> int \<Rightarrow> World" where
  "worldSimulating out t =
     (worldUp t)\<lparr>simulateSwap := (\<lambda>w p. Inr \<lparr>sim_amountOut = Some (Num out)\<rparr>)\<rparr>"

text \<open>Engine options with a given slippage tolerance.\<close>

definition optsTolerance :: "rat \<Rightarrow> ExecutionOptions" where
  "optsTolerance tol =
     newExecutionOptions defaultAppConfig (noOptions\<lparr>opt_slippageTolerance := Some (Num tol)\<rparr>)"

definition worldDown :: "int \<Rightarrow> World" where
  "worldDown t =
     \<lparr>restoreWallet = (\<lambda>m nw. Inl ''offline''),
      getBalance = (\<lambda>w. Inl ''offline''),
      listPools = (\<lambda>w. Inl ''offline''),
      simulateSwap = (\<lambda>w p. Inl ''offline''),
      executeSwap = (\<lambda>w p. Inl ''offline''),
      dateNow = t,
      parseFloat = (\<lambda>s. Num (1 / 2)),
      numberToString = (\<lambda>x. if x = Num 1000 then ''1000'' else ''?'')\<rparr>"

text \<open>The options of an engine built without options, and the same with three attempts.\<close>

definition opts0 :: ExecutionOptions where
  "opts0 = newExecutionOptions defaultAppConfig noOptions"

definition opts3 :: ExecutionOptions where
  "opts3 = newExecutionOptions defaultAppConfig (noOptions\<lparr>opt_maxRetries := Some 3\<rparr>)"

text \<open>The remote side is up for the calls at positions 0 and 2 and down for position 1.\<close>

definition worldsABC :: "nat \<Rightarrow> nat \<Rightarrow> World" where
  "worldsABC i n = (if i = 1 then worldDown (int n) else worldUp (int n))"

definition profileABC :: Profile where
  "profileABC =
     \<lparr>name = ''p'', createdAt = 0, lastUsed = 0,
      snipes = [snipeOf ''A'' True, snipeOf ''X'' False, snipeOf ''B'' True, snipeOf ''C'' True],
      settings = settings0\<rparr>"

definition engine3 :: SnipeEngine where
  "engine3 = \<lparr>isExecuting = False, executionOptions = opts3, activeWallets = Map.empty\<rparr>"

text \<open>Four rounds over the three calls.\<close>

definition roundRobin :: "nat list" where
  "roundRobin = [0, 1, 2, 0, 1, 2, 0, 1, 2, 0, 1, 2]"

section \<open>Lock manager: properties\<close>

text \<open>
  Claim C2, as amended. \<open>acquireLock\<close> returns true and leaves a lock record for the
  calling process when no lock record can be read or the existing record is stale,
  provided the new record can be written. Whenever a valid (non-stale) record exists it
  returns false and changes nothing, whoever the holder is: the holder is never
  compared, so a re-acquire by the process that already holds the lock fails too.
\<close>

theorem acquireLock_amended:
  "((readLockFile d = None \<or> (\<exists>l. readLockFile d = Some l \<and> isLockStale env l))
      \<and> \<not> lock_write_fails d
      \<longrightarrow> snd (acquireLock env d pname) = True
          \<and> lockFile (fst (acquireLock env d pname)) = LockContent (own_lock env pname))
   \<and> ((\<exists>l. readLockFile d = Some l \<and> \<not> isLockStale env l)
      \<longrightarrow> acquireLock env d pname = (d, False))"
  by (auto simp: acquireLock_def acquireLock_try_def writeLockFile_def removeLock_def
      own_lock_def Let_def split: option.splits)

theorem acquireLock_amended_witness:
  "readLockFile dir0 = None \<and> \<not> lock_write_fails dir0
   \<and> snd (acquireLock env0 dir0 ''p'') = True
   \<and> lockFile (fst (acquireLock env0 dir0 ''p'')) = LockContent (own_lock env0 ''p'')
   \<and> readLockFile (dir0\<lparr>lockFile := LockContent dead_lock\<rparr>) = Some dead_lock
   \<and> isLockStale env0 dead_lock
   \<and> snd (acquireLock env0 (dir0\<lparr>lockFile := LockContent dead_lock\<rparr>) ''p'') = True
   \<and> readLockFile dir_self_locked = Some (own_lock env0 ''p'')
   \<and> \<not> isLockStale env0 (own_lock env0 ''p'')
   \<and> acquireLock env0 dir_self_locked ''p'' = (dir_self_locked, False)"
proof -
  have r0: "readLockFile dir0 = None" and w0: "\<not> lock_write_fails dir0"
    by (simp_all add: readLockFile_def dir0_def)
  have r1: "readLockFile (dir0\<lparr>lockFile := LockContent dead_lock\<rparr>) = Some dead_lock"
    and w1: "\<not> lock_write_fails (dir0\<lparr>lockFile := LockContent dead_lock\<rparr>)"
    by (simp_all add: readLockFile_def dir0_def)
  have s1: "isLockStale env0 dead_lock"
    by (simp add: isLockStale_def STALE_LOCK_TIMEOUT_def env0_def dead_lock_def)
  have r2: "readLockFile dir_self_locked = Some (own_lock env0 ''p'')"
    by (simp add: readLockFile_def dir_self_locked_def)
  have s2: "\<not> isLockStale env0 (own_lock env0 ''p'')"
    by (simp add: isLockStale_def STALE_LOCK_TIMEOUT_def env0_def own_lock_def)
  show ?thesis
    using acquireLock_amended [of dir0 env0 "''p''"]
      acquireLock_amended [of "dir0\<lparr>lockFile := LockContent dead_lock\<rparr>" env0 "''p''"]
      acquireLock_amended [of dir_self_locked env0 "''p''"]
      r0 w0 r1 w1 s1 r2 s2
    by blast
qed

text \<open>
  Claim C2 as stated fails on its third part: the calling process holds a valid lock
  (its own pid and host, written at the current time, and the process exists), and
  \<open>acquireLock\<close> returns false.
\<close>

theorem acquireLock_reacquire_counterexample:
  "readLockFile dir_self_locked = Some (own_lock env0 ''p'')
   \<and> held_by_caller env0 (own_lock env0 ''p'')
   \<and> \<not> isLockStale env0 (own_lock env0 ''p'')
   \<and> snd (acquireLock env0 dir_self_locked ''p'') = False"
  by (simp add: acquireLock_def acquireLock_try_def readLockFile_def isLockStale_def
      STALE_LOCK_TIMEOUT_def env0_def dir0_def dir_self_locked_def own_lock_def
      held_by_caller_def)

text \<open>
  Claim C3. A lock record is stale if and only if its age exceeds the stale timeout of
  five minutes or the probe of the holder's pid does not report an existing process;
  in particular a probe that fails for lack of permission makes the record stale.
\<close>

theorem isLockStale_iff:
  "(isLockStale env lock \<longleftrightarrow>
      (now env - timestamp lock > STALE_LOCK_TIMEOUT
       \<or> process_kill env (pid lock) \<noteq> ProcessExists))
   \<and> STALE_LOCK_TIMEOUT = 5 * 60 * 1000
   \<and> (process_kill env (pid lock) = EPERM \<longrightarrow> isLockStale env lock)"
  by (auto simp: isLockStale_def STALE_LOCK_TIMEOUT_def Let_def split: kill_result.splits)

theorem isLockStale_iff_witness:
  "process_kill env0 (pid eperm_lock) = EPERM
   \<and> \<not> now env0 - timestamp eperm_lock > STALE_LOCK_TIMEOUT
   \<and> isLockStale env0 eperm_lock
   \<and> \<not> isLockStale env0 (own_lock env0 ''p'')"
  using isLockStale_iff [of env0 eperm_lock] isLockStale_iff [of env0 "own_lock env0 ''p''"]
  by (simp add: env0_def own_lock_def eperm_lock_def)

text \<open>
  Claim C10, as amended. \<open>acquireLock\<close> never throws: an error thrown inside its
  \<open>try\<close> block (the write of the new record) is absorbed and the result is false, also
  when no valid lock is held by anybody. An error while reading or parsing the lock
  file is absorbed earlier, by treating the record as absent: \<open>acquireLock\<close> then
  writes a new record and returns true when the write succeeds.
\<close>

theorem acquireLock_absorbs_errors:
  "(\<forall>d' e. acquireLock_try env d pname = (d', Inl e) \<longrightarrow> acquireLock env d pname = (d', False))
   \<and> (lock_write_fails d \<longrightarrow> snd (acquireLock env d pname) = False)
   \<and> (lock_write_fails d \<and> readLockFile d = None
        \<longrightarrow> snd (acquireLock env d pname) = False \<and> \<not> isLocked env (fst (acquireLock env d pname)))
   \<and> (lockFile d = UnreadableLockFile \<and> \<not> lock_write_fails d
        \<longrightarrow> snd (acquireLock env d pname) = True)"
  by (auto simp: acquireLock_def acquireLock_try_def writeLockFile_def removeLock_def
      readLockFile_def isLocked_def Let_def split: option.splits lock_file.splits if_splits)

theorem acquireLock_absorbs_errors_witness:
  "acquireLock_try env0 (dir0\<lparr>lock_write_fails := True\<rparr>) ''p''
     = (dir0\<lparr>lock_write_fails := True\<rparr>, Inl ''EIO'')
   \<and> acquireLock env0 (dir0\<lparr>lock_write_fails := True\<rparr>) ''p''
     = (dir0\<lparr>lock_write_fails := True\<rparr>, False)
   \<and> \<not> isLocked env0 (fst (acquireLock env0 (dir0\<lparr>lock_write_fails := True\<rparr>) ''p''))
   \<and> snd (acquireLock env0 (dir0\<lparr>lockFile := UnreadableLockFile\<rparr>) ''p'') = True"
proof -
  have t: "acquireLock_try env0 (dir0\<lparr>lock_write_fails := True\<rparr>) ''p''
     = (dir0\<lparr>lock_write_fails := True\<rparr>, Inl ''EIO'')"
    by (simp add: acquireLock_try_def readLockFile_def writeLockFile_def dir0_def)
  have w: "lock_write_fails (dir0\<lparr>lock_write_fails := True\<rparr>)"
    and r: "readLockFile (dir0\<lparr>lock_write_fails := True\<rparr>) = None"
    and u: "lockFile (dir0\<lparr>lockFile := UnreadableLockFile\<rparr>) = UnreadableLockFile"
    and v: "\<not> lock_write_fails (dir0\<lparr>lockFile := UnreadableLockFile\<rparr>)"
    by (simp_all add: readLockFile_def dir0_def)
  show ?thesis
    using acquireLock_absorbs_errors [of env0 "dir0\<lparr>lock_write_fails := True\<rparr>" "''p''"]
      acquireLock_absorbs_errors [of env0 "dir0\<lparr>lockFile := UnreadableLockFile\<rparr>" "''p''"]
      t w r u v
    by blast
qed

text \<open>
  Claim C10 as stated fails for errors while reading: the lock file cannot be read or
  parsed, the write succeeds, and \<open>acquireLock\<close> returns true.
\<close>

theorem acquireLock_read_error_counterexample:
  "lockFile (dir0\<lparr>lockFile := UnreadableLockFile\<rparr>) = UnreadableLockFile
   \<and> snd (acquireLock env0 (dir0\<lparr>lockFile := UnreadableLockFile\<rparr>) ''p'') = True"
  by (simp add: acquireLock_def acquireLock_try_def readLockFile_def writeLockFile_def dir0_def)

section \<open>Profile manager: properties\<close>

text \<open>
  Claim C4, as amended. \<open>saveProfile\<close> performs no lock check: its outcome and the
  configuration it persists are the same whatever the lock file holds. It succeeds
  whenever the configuration file can be written, and then the persisted configuration
  is the given profile stamped with the current time; when the write fails it fails
  with \<open>Failed to save profile\<close> and the persisted configuration is unchanged.
\<close>

theorem saveProfile_ignores_lock:
  "snd (saveProfile env (d\<lparr>lockFile := lf\<rparr>) p) = snd (saveProfile env d p)
   \<and> configFile (fst (saveProfile env (d\<lparr>lockFile := lf\<rparr>) p)) = configFile (fst (saveProfile env d p))
   \<and> (\<not> config_write_fails d \<longrightarrow>
        snd (saveProfile env d p) = Inr ()
        \<and> configFile (fst (saveProfile env d p)) = Some (p\<lparr>lastUsed := now env\<rparr>))
   \<and> (config_write_fails d \<longrightarrow>
        snd (saveProfile env d p) = Inl (''Failed to save profile: '' @ ''Failed to write JSON file'')
        \<and> configFile (fst (saveProfile env d p)) = configFile d)"
  by (auto simp: saveProfile_def backupFile_def writeJsonFile_def cleanupBackups_def Let_def
      split: option.splits)

theorem saveProfile_ignores_lock_witness:
  "\<not> config_write_fails dir0
   \<and> snd (saveProfile env0 dir0 profile0) = Inr ()
   \<and> configFile (fst (saveProfile env0 dir0 profile0)) = Some (profile0\<lparr>lastUsed := now env0\<rparr>)
   \<and> config_write_fails (dir0\<lparr>config_write_fails := True\<rparr>)
   \<and> configFile (fst (saveProfile env0 (dir0\<lparr>config_write_fails := True\<rparr>) profile0)) = None"
proof -
  have a: "\<not> config_write_fails dir0"
    and b: "config_write_fails (dir0\<lparr>config_write_fails := True\<rparr>)"
    and c: "configFile (dir0\<lparr>config_write_fails := True\<rparr>) = None"
    by (simp_all add: dir0_def)
  show ?thesis
    using saveProfile_ignores_lock [where env = env0 and d = dir0 and lf = NoLockFile and p = profile0]
      saveProfile_ignores_lock [where env = env0 and d = "dir0\<lparr>config_write_fails := True\<rparr>"
        and lf = NoLockFile and p = profile0]
      a b c
    by simp
qed

text \<open>
  Claim C4 as stated fails: nobody holds a lock on the directory, and \<open>saveProfile\<close>
  succeeds and replaces the persisted configuration.
\<close>

theorem saveProfile_unlocked_counterexample:
  "\<not> isLocked env0 dir0
   \<and> configFile dir0 = None
   \<and> snd (saveProfile env0 dir0 profile0) = Inr ()
   \<and> configFile (fst (saveProfile env0 dir0 profile0)) = Some (profile0\<lparr>lastUsed := 1000\<rparr>)"
  by (simp add: saveProfile_def backupFile_def writeJsonFile_def cleanupBackups_def
      isLocked_def readLockFile_def env0_def dir0_def)

section \<open>Network detector: properties\<close>

lemma performHealthCheck_counter:
  "consecutiveFailures (currentStatus (performHealthCheck d c))
     = (if isOnline (currentStatus (performHealthCheck d c)) then 0 else failureCounter d + 1)
   \<and> failureCounter (performHealthCheck d c)
     = consecutiveFailures (currentStatus (performHealthCheck d c))"
  by (auto simp: performHealthCheck_def beginHealthCheck_def finishHealthCheck_def emitStatusEvents_def emit_all_def race_def Let_def
      split: sum.splits ping_outcome.splits if_splits)

lemma performHealthCheck_online:
  "isOnline (currentStatus (performHealthCheck d c))
     \<longleftrightarrow> (\<exists>t. ping c = Resolves t ''ok'' \<and> t < healthcheckTimeout d)"
  by (auto simp: performHealthCheck_def beginHealthCheck_def finishHealthCheck_def emitStatusEvents_def emit_all_def race_def Let_def
      split: sum.splits ping_outcome.splits if_splits)

lemma det_polling_eval:
  "isPolling det_polling \<and> pollTimer det_polling = Some 2000"
  by (simp add: det_polling_def det0_def newNetworkDetector_def defaultAppConfig_def or_default_def startMonitoring_def
      scheduleNextCheck_def performHealthCheck_def beginHealthCheck_def finishHealthCheck_def emitStatusEvents_def emit_all_def emit_def
      race_def failing_def Let_def)

text \<open>
  Claim C6, as amended. \<open>startMonitoring\<close> on a detector that is already polling
  returns normally: no error reaches the caller. It logs a warning and leaves
  everything else, the pending timer and the status included, as it was.
\<close>

theorem startMonitoring_already_polling:
  "isPolling d \<Longrightarrow>
     startMonitoring d nw c
       = (d\<lparr>warnings := warnings d @ [''Network monitoring already started'']\<rparr>, Inr ())"
  by (simp add: startMonitoring_def)

theorem startMonitoring_already_polling_witness:
  "isPolling det_polling
   \<and> startMonitoring det_polling REGTEST (succeeding 5)
       = (det_polling\<lparr>warnings := warnings det_polling @ [''Network monitoring already started'']\<rparr>,
          Inr ())"
  using startMonitoring_already_polling [of det_polling REGTEST "succeeding 5"] det_polling_eval
  by simp

text \<open>
  Claim C6 as stated fails: monitoring is active, and a second \<open>startMonitoring\<close>
  ends with a normal return, not with an error.
\<close>

theorem startMonitoring_no_error_counterexample:
  "isPolling det_polling
   \<and> snd (startMonitoring det_polling REGTEST (succeeding 5)) = Inr ()"
  using det_polling_eval by (simp add: startMonitoring_def)

lemma performHealthCheck_timeout:
  "healthcheckTimeout (performHealthCheck d c) = healthcheckTimeout d"
  by (simp add: performHealthCheck_def beginHealthCheck_def finishHealthCheck_def emitStatusEvents_def emit_all_def Let_def
      split: sum.splits prod.splits)

text \<open>
  Claim C7. In every sequence of health checks, the \<open>consecutiveFailures\<close> of the
  status computed by a check is 0 when that check found the network online, and
  otherwise exactly one more than the \<open>consecutiveFailures\<close> of the status computed by
  the check before it. A check finds the network online exactly when the ping resolves
  with status \<open>ok\<close> before the timeout; a rejected, unhealthy or timed-out ping is a
  failed check. For the first check of the sequence the count continues from the
  detector's own failure counter, which is 0 in a new detector.
\<close>

theorem consecutiveFailures_steps:
  assumes "i < length cs"
  shows "consecutiveFailures (statuses d cs ! i)
       = (if isOnline (statuses d cs ! i) then 0
          else (failureCounter d # map consecutiveFailures (statuses d cs)) ! i + 1)
     \<and> (isOnline (statuses d cs ! i)
          \<longleftrightarrow> (\<exists>t. ping (cs ! i) = Resolves t ''ok'' \<and> t < healthcheckTimeout d))
     \<and> failureCounter (newNetworkDetector cfg options t0) = 0"
  using assms
proof (induction cs arbitrary: d i)
  case Nil
  then show ?case by simp
next
  case (Cons c cs)
  show ?case
  proof (cases i)
    case 0
    then show ?thesis
      using performHealthCheck_counter [of d c] performHealthCheck_online [of d c]
      by (simp add: newNetworkDetector_def)
  next
    case (Suc j)
    let ?d = "performHealthCheck d c"
    from Suc Cons.prems have j: "j < length cs" by simp
    have c: "failureCounter ?d = consecutiveFailures (currentStatus ?d)"
      using performHealthCheck_counter [of d c] by simp
    from Cons.IH [OF j, of ?d] Suc c show ?thesis
      by (simp add: performHealthCheck_timeout)
  qed
qed

lemma statuses_example:
  "map (\<lambda>s. (isOnline s, consecutiveFailures s))
     (statuses det0 [failing 1, timing_out 2, succeeding 3, failing 4])
   = [(False, 1), (False, 2), (True, 0), (False, 1)]"
  by (simp add: det0_def newNetworkDetector_def defaultAppConfig_def or_default_def performHealthCheck_def beginHealthCheck_def finishHealthCheck_def emitStatusEvents_def
      emit_all_def race_def failing_def timing_out_def succeeding_def Let_def)

theorem consecutiveFailures_steps_witness:
  "(1::nat) < length [failing 1, timing_out 2, succeeding 3, failing 4]
   \<and> \<not> isOnline (statuses det0 [failing 1, timing_out 2, succeeding 3, failing 4] ! 1)
   \<and> consecutiveFailures (statuses det0 [failing 1, timing_out 2, succeeding 3, failing 4] ! 1)
       = consecutiveFailures (statuses det0 [failing 1, timing_out 2, succeeding 3, failing 4] ! 0) + 1
   \<and> isOnline (statuses det0 [failing 1, timing_out 2, succeeding 3, failing 4] ! 2)
   \<and> consecutiveFailures (statuses det0 [failing 1, timing_out 2, succeeding 3, failing 4] ! 2) = 0"
proof -
  have len1: "(1::nat) < length [failing 1, timing_out 2, succeeding 3, failing 4]"
    and len2: "(2::nat) < length [failing 1, timing_out 2, succeeding 3, failing 4]"
    by simp_all
  have "map fst (map (\<lambda>s. (isOnline s, consecutiveFailures s))
      (statuses det0 [failing 1, timing_out 2, succeeding 3, failing 4]))
      = map fst [(False, 1::nat), (False, 2), (True, 0), (False, 1)]"
    by (rule arg_cong [OF statuses_example])
  then have o1: "\<not> isOnline (statuses det0 [failing 1, timing_out 2, succeeding 3, failing 4] ! 1)"
    and o2: "isOnline (statuses det0 [failing 1, timing_out 2, succeeding 3, failing 4] ! 2)"
    by simp_all
  show ?thesis
    using consecutiveFailures_steps [OF len1, of det0] consecutiveFailures_steps [OF len2, of det0]
      o1 o2
    by simp
qed

subsection \<open>The events of a health check\<close>












section \<open>JavaScript numbers: the roundings used below\<close>

lemma round64_zero:
  "round64 0 = Num 0"
  by (simp add: round64_def)

lemma round64_10_1000_a:
  "round64 (1 / 10) = Num (3602879701896397 / 36028797018963968)"
proof -
  have f: "\<lceil>(10)::rat\<rceil> = 10"
    by (simp add: ceiling_eq_iff)
  have b: "bitlen 9 = 4"
    by (simp add: compute_bitlen)
  have l: "floorlog2 (1 / 10) = - 4"
    by (simp add: floorlog2_def f b)
  have p: "pow2 (- 56) = 1 / 72057594037927936"
    by (simp add: pow2_def)
  have g: "\<lfloor>(36028797018963968 / 5)::rat\<rfloor> = 7205759403792793"
    by (simp add: floor_eq_iff)
  have r: "roundHalfEven (36028797018963968 / 5) = 7205759403792794"
    by (simp add: roundHalfEven_def g)
  show ?thesis
    by (simp add: round64_def l p r)
qed

lemma round64_10_1000_b:
  "round64 (32425917317067571 / 36028797018963968) = Num (8106479329266893 / 9007199254740992)"
proof -
  have f: "\<lceil>(36028797018963968 / 32425917317067571)::rat\<rceil> = 2"
    by (simp add: ceiling_eq_iff)
  have b: "bitlen 1 = 1"
    by (simp add: compute_bitlen)
  have l: "floorlog2 (32425917317067571 / 36028797018963968) = - 1"
    by (simp add: floorlog2_def f b)
  have p: "pow2 (- 53) = 1 / 9007199254740992"
    by (simp add: pow2_def)
  have g: "\<lfloor>(32425917317067571 / 4)::rat\<rfloor> = 8106479329266892"
    by (simp add: floor_eq_iff)
  have r: "roundHalfEven (32425917317067571 / 4) = 8106479329266893"
    by (simp add: roundHalfEven_def g)
  show ?thesis
    by (simp add: round64_def l p r)
qed

lemma round64_10_1000_c:
  "round64 (1013309916158361625 / 1125899906842624) = Num (900)"
proof -
  have f: "\<lfloor>(1013309916158361625 / 1125899906842624)::rat\<rfloor> = 900"
    by (simp add: floor_eq_iff)
  have b: "bitlen 900 = 10"
    by (simp add: compute_bitlen)
  have l: "floorlog2 (1013309916158361625 / 1125899906842624) = 9"
    by (simp add: floorlog2_def f b)
  have p: "pow2 (- 43) = 1 / 8796093022208"
    by (simp add: pow2_def)
  have g: "\<lfloor>(1013309916158361625 / 128)::rat\<rfloor> = 7916483719987200"
    by (simp add: floor_eq_iff)
  have r: "roundHalfEven (1013309916158361625 / 128) = 7916483719987200"
    by (simp add: roundHalfEven_def g)
  show ?thesis
    by (simp add: round64_def l p r)
qed

lemma minOutput_10_1000:
  assumes "slippageTolerance opts = Num 10" and "sim_amountOut simulation = Some (Num 1000)"
  shows "js_mul (js_or (sim_amountOut simulation) (Num 0))
                (js_sub (Num 1) (js_div (slippageTolerance opts) (Num 100))) = Num (900)"
    and "minOutput opts simulation = Num 900"
proof -
  have a: "js_div (Num 10) (Num 100) = Num (3602879701896397 / 36028797018963968)"
    using round64_10_1000_a by (simp add: js_div_def)
  have b: "js_sub (Num 1) (Num (3602879701896397 / 36028797018963968)) = Num (8106479329266893 / 9007199254740992)"
    using round64_10_1000_b by (simp add: js_sub_def)
  have c: "js_mul (Num 1000) (Num (8106479329266893 / 9007199254740992)) = Num (900)"
    using round64_10_1000_c by (simp add: js_mul_def)
  have d: "\<lfloor>(900)::rat\<rfloor> = 900"
    by (simp add: floor_eq_iff)
  show "js_mul (js_or (sim_amountOut simulation) (Num 0))
                (js_sub (Num 1) (js_div (slippageTolerance opts) (Num 100))) = Num (900)"
    using assms by (simp add: js_or_def a b c)
  then show "minOutput opts simulation = Num 900"
    by (simp add: minOutput_def js_floor_def d)
qed

lemma round64_10_1005_a:
  "round64 (1 / 10) = Num (3602879701896397 / 36028797018963968)"
proof -
  have f: "\<lceil>(10)::rat\<rceil> = 10"
    by (simp add: ceiling_eq_iff)
  have b: "bitlen 9 = 4"
    by (simp add: compute_bitlen)
  have l: "floorlog2 (1 / 10) = - 4"
    by (simp add: floorlog2_def f b)
  have p: "pow2 (- 56) = 1 / 72057594037927936"
    by (simp add: pow2_def)
  have g: "\<lfloor>(36028797018963968 / 5)::rat\<rfloor> = 7205759403792793"
    by (simp add: floor_eq_iff)
  have r: "roundHalfEven (36028797018963968 / 5) = 7205759403792794"
    by (simp add: roundHalfEven_def g)
  show ?thesis
    by (simp add: round64_def l p r)
qed

lemma round64_10_1005_b:
  "round64 (32425917317067571 / 36028797018963968) = Num (8106479329266893 / 9007199254740992)"
proof -
  have f: "\<lceil>(36028797018963968 / 32425917317067571)::rat\<rceil> = 2"
    by (simp add: ceiling_eq_iff)
  have b: "bitlen 1 = 1"
    by (simp add: compute_bitlen)
  have l: "floorlog2 (32425917317067571 / 36028797018963968) = - 1"
    by (simp add: floorlog2_def f b)
  have p: "pow2 (- 53) = 1 / 9007199254740992"
    by (simp add: pow2_def)
  have g: "\<lfloor>(32425917317067571 / 4)::rat\<rfloor> = 8106479329266892"
    by (simp add: floor_eq_iff)
  have r: "roundHalfEven (32425917317067571 / 4) = 8106479329266893"
    by (simp add: roundHalfEven_def g)
  show ?thesis
    by (simp add: round64_def l p r)
qed

lemma round64_10_1005_c:
  "round64 (8147011725913227465 / 9007199254740992) = Num (1809 / 2)"
proof -
  have f: "\<lfloor>(8147011725913227465 / 9007199254740992)::rat\<rfloor> = 904"
    by (simp add: floor_eq_iff)
  have b: "bitlen 904 = 10"
    by (simp add: compute_bitlen)
  have l: "floorlog2 (8147011725913227465 / 9007199254740992) = 9"
    by (simp add: floorlog2_def f b)
  have p: "pow2 (- 43) = 1 / 8796093022208"
    by (simp add: pow2_def)
  have g: "\<lfloor>(8147011725913227465 / 1024)::rat\<rfloor> = 7956066138587136"
    by (simp add: floor_eq_iff)
  have r: "roundHalfEven (8147011725913227465 / 1024) = 7956066138587136"
    by (simp add: roundHalfEven_def g)
  show ?thesis
    by (simp add: round64_def l p r)
qed

lemma minOutput_10_1005:
  assumes "slippageTolerance opts = Num 10" and "sim_amountOut simulation = Some (Num 1005)"
  shows "js_mul (js_or (sim_amountOut simulation) (Num 0))
                (js_sub (Num 1) (js_div (slippageTolerance opts) (Num 100))) = Num (1809 / 2)"
    and "minOutput opts simulation = Num 904"
proof -
  have a: "js_div (Num 10) (Num 100) = Num (3602879701896397 / 36028797018963968)"
    using round64_10_1005_a by (simp add: js_div_def)
  have b: "js_sub (Num 1) (Num (3602879701896397 / 36028797018963968)) = Num (8106479329266893 / 9007199254740992)"
    using round64_10_1005_b by (simp add: js_sub_def)
  have c: "js_mul (Num 1005) (Num (8106479329266893 / 9007199254740992)) = Num (1809 / 2)"
    using round64_10_1005_c by (simp add: js_mul_def)
  have d: "\<lfloor>(1809 / 2)::rat\<rfloor> = 904"
    by (simp add: floor_eq_iff)
  show "js_mul (js_or (sim_amountOut simulation) (Num 0))
                (js_sub (Num 1) (js_div (slippageTolerance opts) (Num 100))) = Num (1809 / 2)"
    using assms by (simp add: js_or_def a b c)
  then show "minOutput opts simulation = Num 904"
    by (simp add: minOutput_def js_floor_def d)
qed

lemma round64_7_1000_a:
  "round64 (7 / 100) = Num (1261007895663739 / 18014398509481984)"
proof -
  have f: "\<lceil>(100 / 7)::rat\<rceil> = 15"
    by (simp add: ceiling_eq_iff)
  have b: "bitlen 14 = 4"
    by (simp add: compute_bitlen)
  have l: "floorlog2 (7 / 100) = - 4"
    by (simp add: floorlog2_def f b)
  have p: "pow2 (- 56) = 1 / 72057594037927936"
    by (simp add: pow2_def)
  have g: "\<lfloor>(126100789566373888 / 25)::rat\<rfloor> = 5044031582654955"
    by (simp add: floor_eq_iff)
  have r: "roundHalfEven (126100789566373888 / 25) = 5044031582654956"
    by (simp add: roundHalfEven_def g)
  show ?thesis
    by (simp add: round64_def l p r)
qed

lemma round64_7_1000_b:
  "round64 (16753390613818245 / 18014398509481984) = Num (4188347653454561 / 4503599627370496)"
proof -
  have f: "\<lceil>(18014398509481984 / 16753390613818245)::rat\<rceil> = 2"
    by (simp add: ceiling_eq_iff)
  have b: "bitlen 1 = 1"
    by (simp add: compute_bitlen)
  have l: "floorlog2 (16753390613818245 / 18014398509481984) = - 1"
    by (simp add: floorlog2_def f b)
  have p: "pow2 (- 53) = 1 / 9007199254740992"
    by (simp add: pow2_def)
  have g: "\<lfloor>(16753390613818245 / 2)::rat\<rfloor> = 8376695306909122"
    by (simp add: floor_eq_iff)
  have r: "roundHalfEven (16753390613818245 / 2) = 8376695306909122"
    by (simp add: roundHalfEven_def g)
  show ?thesis
    by (simp add: round64_def l p r)
qed

lemma round64_7_1000_c:
  "round64 (523543456681820125 / 562949953421312) = Num (8180366510653439 / 8796093022208)"
proof -
  have f: "\<lfloor>(523543456681820125 / 562949953421312)::rat\<rfloor> = 929"
    by (simp add: floor_eq_iff)
  have b: "bitlen 929 = 10"
    by (simp add: compute_bitlen)
  have l: "floorlog2 (523543456681820125 / 562949953421312) = 9"
    by (simp add: floorlog2_def f b)
  have p: "pow2 (- 43) = 1 / 8796093022208"
    by (simp add: pow2_def)
  have g: "\<lfloor>(523543456681820125 / 64)::rat\<rfloor> = 8180366510653439"
    by (simp add: floor_eq_iff)
  have r: "roundHalfEven (523543456681820125 / 64) = 8180366510653439"
    by (simp add: roundHalfEven_def g)
  show ?thesis
    by (simp add: round64_def l p r)
qed

lemma minOutput_7_1000:
  assumes "slippageTolerance opts = Num 7" and "sim_amountOut simulation = Some (Num 1000)"
  shows "js_mul (js_or (sim_amountOut simulation) (Num 0))
                (js_sub (Num 1) (js_div (slippageTolerance opts) (Num 100))) = Num (8180366510653439 / 8796093022208)"
    and "minOutput opts simulation = Num 929"
proof -
  have a: "js_div (Num 7) (Num 100) = Num (1261007895663739 / 18014398509481984)"
    using round64_7_1000_a by (simp add: js_div_def)
  have b: "js_sub (Num 1) (Num (1261007895663739 / 18014398509481984)) = Num (4188347653454561 / 4503599627370496)"
    using round64_7_1000_b by (simp add: js_sub_def)
  have c: "js_mul (Num 1000) (Num (4188347653454561 / 4503599627370496)) = Num (8180366510653439 / 8796093022208)"
    using round64_7_1000_c by (simp add: js_mul_def)
  have d: "\<lfloor>(8180366510653439 / 8796093022208)::rat\<rfloor> = 929"
    by (simp add: floor_eq_iff)
  show "js_mul (js_or (sim_amountOut simulation) (Num 0))
                (js_sub (Num 1) (js_div (slippageTolerance opts) (Num 100))) = Num (8180366510653439 / 8796093022208)"
    using assms by (simp add: js_or_def a b c)
  then show "minOutput opts simulation = Num 929"
    by (simp add: minOutput_def js_floor_def d)
qed

lemma round64_30_90_a:
  "round64 (3 / 10) = Num (5404319552844595 / 18014398509481984)"
proof -
  have f: "\<lceil>(10 / 3)::rat\<rceil> = 4"
    by (simp add: ceiling_eq_iff)
  have b: "bitlen 3 = 2"
    by (simp add: compute_bitlen)
  have l: "floorlog2 (3 / 10) = - 2"
    by (simp add: floorlog2_def f b)
  have p: "pow2 (- 54) = 1 / 18014398509481984"
    by (simp add: pow2_def)
  have g: "\<lfloor>(27021597764222976 / 5)::rat\<rfloor> = 5404319552844595"
    by (simp add: floor_eq_iff)
  have r: "roundHalfEven (27021597764222976 / 5) = 5404319552844595"
    by (simp add: roundHalfEven_def g)
  show ?thesis
    by (simp add: round64_def l p r)
qed

lemma round64_30_90_b:
  "round64 (12610078956637389 / 18014398509481984) = Num (3152519739159347 / 4503599627370496)"
proof -
  have f: "\<lceil>(18014398509481984 / 12610078956637389)::rat\<rceil> = 2"
    by (simp add: ceiling_eq_iff)
  have b: "bitlen 1 = 1"
    by (simp add: compute_bitlen)
  have l: "floorlog2 (12610078956637389 / 18014398509481984) = - 1"
    by (simp add: floorlog2_def f b)
  have p: "pow2 (- 53) = 1 / 9007199254740992"
    by (simp add: pow2_def)
  have g: "\<lfloor>(12610078956637389 / 2)::rat\<rfloor> = 6305039478318694"
    by (simp add: floor_eq_iff)
  have r: "roundHalfEven (12610078956637389 / 2) = 6305039478318694"
    by (simp add: roundHalfEven_def g)
  show ?thesis
    by (simp add: round64_def l p r)
qed

lemma round64_30_90_c:
  "round64 (141863388262170615 / 2251799813685248) = Num (8866461766385663 / 140737488355328)"
proof -
  have f: "\<lfloor>(141863388262170615 / 2251799813685248)::rat\<rfloor> = 62"
    by (simp add: floor_eq_iff)
  have b: "bitlen 62 = 6"
    by (simp add: compute_bitlen)
  have l: "floorlog2 (141863388262170615 / 2251799813685248) = 5"
    by (simp add: floorlog2_def f b)
  have p: "pow2 (- 47) = 1 / 140737488355328"
    by (simp add: pow2_def)
  have g: "\<lfloor>(141863388262170615 / 16)::rat\<rfloor> = 8866461766385663"
    by (simp add: floor_eq_iff)
  have r: "roundHalfEven (141863388262170615 / 16) = 8866461766385663"
    by (simp add: roundHalfEven_def g)
  show ?thesis
    by (simp add: round64_def l p r)
qed

lemma minOutput_30_90:
  assumes "slippageTolerance opts = Num 30" and "sim_amountOut simulation = Some (Num 90)"
  shows "js_mul (js_or (sim_amountOut simulation) (Num 0))
                (js_sub (Num 1) (js_div (slippageTolerance opts) (Num 100))) = Num (8866461766385663 / 140737488355328)"
    and "minOutput opts simulation = Num 62"
proof -
  have a: "js_div (Num 30) (Num 100) = Num (5404319552844595 / 18014398509481984)"
    using round64_30_90_a by (simp add: js_div_def)
  have b: "js_sub (Num 1) (Num (5404319552844595 / 18014398509481984)) = Num (3152519739159347 / 4503599627370496)"
    using round64_30_90_b by (simp add: js_sub_def)
  have c: "js_mul (Num 90) (Num (3152519739159347 / 4503599627370496)) = Num (8866461766385663 / 140737488355328)"
    using round64_30_90_c by (simp add: js_mul_def)
  have d: "\<lfloor>(8866461766385663 / 140737488355328)::rat\<rfloor> = 62"
    by (simp add: floor_eq_iff)
  show "js_mul (js_or (sim_amountOut simulation) (Num 0))
                (js_sub (Num 1) (js_div (slippageTolerance opts) (Num 100))) = Num (8866461766385663 / 140737488355328)"
    using assms by (simp add: js_or_def a b c)
  then show "minOutput opts simulation = Num 62"
    by (simp add: minOutput_def js_floor_def d)
qed

lemma round64_10_big_a:
  "round64 (1 / 10) = Num (3602879701896397 / 36028797018963968)"
proof -
  have f: "\<lceil>(10)::rat\<rceil> = 10"
    by (simp add: ceiling_eq_iff)
  have b: "bitlen 9 = 4"
    by (simp add: compute_bitlen)
  have l: "floorlog2 (1 / 10) = - 4"
    by (simp add: floorlog2_def f b)
  have p: "pow2 (- 56) = 1 / 72057594037927936"
    by (simp add: pow2_def)
  have g: "\<lfloor>(36028797018963968 / 5)::rat\<rfloor> = 7205759403792793"
    by (simp add: floor_eq_iff)
  have r: "roundHalfEven (36028797018963968 / 5) = 7205759403792794"
    by (simp add: roundHalfEven_def g)
  show ?thesis
    by (simp add: round64_def l p r)
qed

lemma round64_10_big_b:
  "round64 (32425917317067571 / 36028797018963968) = Num (8106479329266893 / 9007199254740992)"
proof -
  have f: "\<lceil>(36028797018963968 / 32425917317067571)::rat\<rceil> = 2"
    by (simp add: ceiling_eq_iff)
  have b: "bitlen 1 = 1"
    by (simp add: compute_bitlen)
  have l: "floorlog2 (32425917317067571 / 36028797018963968) = - 1"
    by (simp add: floorlog2_def f b)
  have p: "pow2 (- 53) = 1 / 9007199254740992"
    by (simp add: pow2_def)
  have g: "\<lfloor>(32425917317067571 / 4)::rat\<rfloor> = 8106479329266892"
    by (simp add: floor_eq_iff)
  have r: "roundHalfEven (32425917317067571 / 4) = 8106479329266893"
    by (simp add: roundHalfEven_def g)
  show ?thesis
    by (simp add: round64_def l p r)
qed

lemma round64_10_big_c:
  "round64 (68963574321210466403627365572743 / 9007199254740992) = Num (7656494807185606)"
proof -
  have f: "\<lfloor>(68963574321210466403627365572743 / 9007199254740992)::rat\<rfloor> = 7656494807185606"
    by (simp add: floor_eq_iff)
  have b: "bitlen 7656494807185606 = 53"
    by (simp add: compute_bitlen)
  have l: "floorlog2 (68963574321210466403627365572743 / 9007199254740992) = 52"
    by (simp add: floorlog2_def f b)
  have p: "pow2 (0) = 1"
    by (simp add: pow2_def)
  have g: "\<lfloor>(68963574321210466403627365572743 / 9007199254740992)::rat\<rfloor> = 7656494807185606"
    by (simp add: floor_eq_iff)
  have r: "roundHalfEven (68963574321210466403627365572743 / 9007199254740992) = 7656494807185606"
    by (simp add: roundHalfEven_def g)
  show ?thesis
    by (simp add: round64_def l p r)
qed

lemma minOutput_10_big:
  assumes "slippageTolerance opts = Num 10" and "sim_amountOut simulation = Some (Num 8507216452428451)"
  shows "js_mul (js_or (sim_amountOut simulation) (Num 0))
                (js_sub (Num 1) (js_div (slippageTolerance opts) (Num 100))) = Num (7656494807185606)"
    and "minOutput opts simulation = Num 7656494807185606"
proof -
  have a: "js_div (Num 10) (Num 100) = Num (3602879701896397 / 36028797018963968)"
    using round64_10_big_a by (simp add: js_div_def)
  have b: "js_sub (Num 1) (Num (3602879701896397 / 36028797018963968)) = Num (8106479329266893 / 9007199254740992)"
    using round64_10_big_b by (simp add: js_sub_def)
  have c: "js_mul (Num 8507216452428451) (Num (8106479329266893 / 9007199254740992)) = Num (7656494807185606)"
    using round64_10_big_c by (simp add: js_mul_def)
  have d: "\<lfloor>(7656494807185606)::rat\<rfloor> = 7656494807185606"
    by (simp add: floor_eq_iff)
  show "js_mul (js_or (sim_amountOut simulation) (Num 0))
                (js_sub (Num 1) (js_div (slippageTolerance opts) (Num 100))) = Num (7656494807185606)"
    using assms by (simp add: js_or_def a b c)
  then show "minOutput opts simulation = Num 7656494807185606"
    by (simp add: minOutput_def js_floor_def d)
qed

lemma round64_50000000:
  "round64 (50000000) = Num (50000000)"
proof -
  have f: "\<lfloor>(50000000)::rat\<rfloor> = 50000000"
    by (simp add: floor_eq_iff)
  have b: "bitlen 50000000 = 26"
    by (simp add: compute_bitlen)
  have l: "floorlog2 (50000000) = 25"
    by (simp add: floorlog2_def f b)
  have p: "pow2 (- 27) = 1 / 134217728"
    by (simp add: pow2_def)
  have g: "\<lfloor>(6710886400000000)::rat\<rfloor> = 6710886400000000"
    by (simp add: floor_eq_iff)
  have r: "roundHalfEven (6710886400000000) = 6710886400000000"
    by (simp add: roundHalfEven_def g)
  show ?thesis
    by (simp add: round64_def l p r)
qed

lemma round64_50000:
  "round64 (50000) = Num (50000)"
proof -
  have f: "\<lfloor>(50000)::rat\<rfloor> = 50000"
    by (simp add: floor_eq_iff)
  have b: "bitlen 50000 = 16"
    by (simp add: compute_bitlen)
  have l: "floorlog2 (50000) = 15"
    by (simp add: floorlog2_def f b)
  have p: "pow2 (- 37) = 1 / 137438953472"
    by (simp add: pow2_def)
  have g: "\<lfloor>(6871947673600000)::rat\<rfloor> = 6871947673600000"
    by (simp add: floor_eq_iff)
  have r: "roundHalfEven (6871947673600000) = 6871947673600000"
    by (simp add: roundHalfEven_def g)
  show ?thesis
    by (simp add: round64_def l p r)
qed

lemma round64_1000:
  "round64 (1000) = Num (1000)"
proof -
  have f: "\<lfloor>(1000)::rat\<rfloor> = 1000"
    by (simp add: floor_eq_iff)
  have b: "bitlen 1000 = 10"
    by (simp add: compute_bitlen)
  have l: "floorlog2 (1000) = 9"
    by (simp add: floorlog2_def f b)
  have p: "pow2 (- 43) = 1 / 8796093022208"
    by (simp add: pow2_def)
  have g: "\<lfloor>(8796093022208000)::rat\<rfloor> = 8796093022208000"
    by (simp add: floor_eq_iff)
  have r: "roundHalfEven (8796093022208000) = 8796093022208000"
    by (simp add: roundHalfEven_def g)
  show ?thesis
    by (simp add: round64_def l p r)
qed

lemma amountInSats_half:
  "js_floor (js_mul (Num (1 / 2)) (Num 100000000)) = Num 50000000"
  using round64_50000000 by (simp add: js_mul_def js_floor_def)

lemma maxSlippageBps_10:
  "js_mul (Num 10) (Num 100) = Num 1000"
  using round64_1000 by (simp add: js_mul_def)

lemma actualPrice_1000:
  "js_div (Num 50000000) (Num 1000) = Num 50000"
  using round64_50000 by (simp add: js_div_def)

lemma slippage_none:
  "js_mul (js_div (js_sub (Num 1000) (Num 1000)) (Num 1000)) (Num 100) = Num 0"
  by (simp add: js_sub_def js_div_def js_mul_def round64_zero)

lemma toBigInt_integer:
  "toBigInt str (Num (of_int k)) = Inr k"
  by (simp add: toBigInt_def)

lemma toBigInt_floor:
  "toBigInt str (js_floor x) = Inr k \<longleftrightarrow> (\<exists>a. x = Num a \<and> k = \<lfloor>a\<rfloor>)"
  by (cases x) (auto simp: toBigInt_def js_floor_def)

section \<open>Snipe engine: properties\<close>

subsection \<open>One turn of the retry loop\<close>

lemma runCall_returned:
  "t_result (snd s) = Some r \<Longrightarrow> runCall opts nw s = (fst s, t_effects (snd s), r)"
  by (subst runCall.simps) simp

lemma runCall_turn:
  "t_result (snd s) = None \<Longrightarrow> runCall opts nw s = runCall opts nw (loopTurn opts nw s)"
  by (subst runCall.simps) simp

lemma loopTurn_returned:
  "t_result t \<noteq> None \<Longrightarrow> loopTurn opts nw (c, t) = (c, t)"
  by (simp add: loopTurn_def)

lemma loopTurn_fixed:
  "t_snipe (snd (loopTurn opts nw (c, t))) = t_snipe t"
  "t_world (snd (loopTurn opts nw (c, t))) = t_world t"
  "t_startTime (snd (loopTurn opts nw (c, t))) = t_startTime t"
  by (simp_all add: loopTurn_def Let_def split: prod.splits sum.splits)

lemma loopTurn_fail:
  assumes "t_result t = None" and "t_attempts t < maxRetries opts"
    and "attemptSnipe opts nw (t_world t (Suc (t_attempts t))) (t_snipe t) (t_startTime t)
           (Suc (t_attempts t)) c = (c1, effs, Inl e)"
  shows "loopTurn opts nw (c, t)
     = (c1, t\<lparr>t_attempts := Suc (t_attempts t), t_lastError := Some e,
               t_effects := t_effects t @ effs
                 @ (if Suc (t_attempts t) < maxRetries opts
                    then retryEffects opts (snipe_id (t_snipe t)) (Suc (t_attempts t)) e
                    else [])\<rparr>)"
  using assms by (simp add: loopTurn_def retryEffects_def Let_def)

lemma loopTurn_exhausted:
  assumes "t_result t = None" and "\<not> t_attempts t < maxRetries opts"
  shows "loopTurn opts nw (c, t)
     = (c, t\<lparr>t_effects := t_effects t
                 @ [Emit (snipe_id (t_snipe t))
                      (Failed (failureResult (t_world t (t_attempts t + 1)) t))],
              t_result := Some (failureResult (t_world t (t_attempts t + 1)) t)\<rparr>)"
  using assms by (simp add: loopTurn_def Let_def)

lemma swapWithWallet_no_retry:
  "filter is_retry (fst (swapWithWallet opts w snipe st n wallet)) = []"
  by (simp add: swapWithWallet_def Let_def split: sum.splits option.splits)

lemma attemptSnipe_no_retry:
  "filter is_retry (fst (snd (attemptSnipe opts nw w snipe st n c))) = []"
  by (simp add: attemptSnipe_def swapWithWallet_no_retry split: prod.splits sum.splits)

lemma filter_retryEffects:
  "filter is_retry (retryEffects opts i n e) = retryEffects opts i n e"
  by (simp add: retryEffects_def)

subsection \<open>A snipe whose attempts all fail\<close>

lemma filter_Sleep_retry:
  "filter is_Sleep (filter is_retry xs) = filter is_Sleep xs"
proof (induction xs)
  case Nil
  then show ?case by simp
next
  case (Cons x xs)
  then show ?case by (cases x rule: is_retry.cases) simp_all
qed

lemma filter_Sleep_retries:
  "filter is_Sleep (concat (map (\<lambda>k. retryEffects opts i k (e k)) ks))
     = map (\<lambda>k. Sleep (backoff opts k)) ks"
  by (induction ks) (simp_all add: retryEffects_def)

lemma runCall_always_failing:
  assumes fails: "\<And>k c. 1 \<le> k \<Longrightarrow> k \<le> maxRetries opts \<Longrightarrow>
             snd (snd (attemptSnipe opts nw (world k) snipe st k c)) = Inl (e k)"
    and "t_result t = None" and "t_world t = world" and "t_snipe t = snipe"
    and "t_startTime t = st" and "t_attempts t \<le> maxRetries opts"
    and "runCall opts nw (c, t) = (c', E, r)"
  shows "snipeId r = snipe_id snipe \<and> success r = False \<and> attempts r = maxRetries opts
     \<and> error r = (if t_attempts t = maxRetries opts then t_lastError t
                   else Some (e (maxRetries opts)))
     \<and> executionTime r = dateNow (world (Suc (maxRetries opts))) - st
     \<and> filter is_retry E
         = filter is_retry (t_effects t)
           @ concat (map (\<lambda>k. retryEffects opts (snipe_id snipe) k (e k))
                       [Suc (t_attempts t)..<maxRetries opts])
     \<and> last E = Emit (snipe_id snipe) (Failed r)"
  using assms(2-)
proof (induction "maxRetries opts - t_attempts t" arbitrary: t c)
  case 0
  then have ex: "\<not> t_attempts t < maxRetries opts" and eq: "t_attempts t = maxRetries opts"
    by simp_all
  let ?r = "failureResult (t_world t (t_attempts t + 1)) t"
  have "runCall opts nw (c, t) = runCall opts nw (loopTurn opts nw (c, t))"
    using "0.prems"(1) by (simp add: runCall_turn)
  also have "\<dots> = (c, t_effects t @ [Emit (snipe_id (t_snipe t)) (Failed ?r)], ?r)"
    using loopTurn_exhausted [OF "0.prems"(1) ex, of nw c]
    by (simp add: runCall_returned)
  finally have "E = t_effects t @ [Emit (snipe_id (t_snipe t)) (Failed ?r)]" and "r = ?r"
    using "0.prems"(6) by simp_all
  then show ?case
    using "0.prems"(2-4) eq by (simp add: failureResult_def)
next
  case (Suc m)
  then have lt: "t_attempts t < maxRetries opts"
    by simp
  let ?n = "Suc (t_attempts t)"
  obtain c1 effs out where att:
    "attemptSnipe opts nw (world ?n) snipe st ?n c = (c1, effs, out)"
    by (metis prod_cases3)
  have "out = Inl (e ?n)"
    using fails [of ?n c] lt att by simp
  with att Suc.prems have att':
    "attemptSnipe opts nw (t_world t ?n) (t_snipe t) (t_startTime t) ?n c = (c1, effs, Inl (e ?n))"
    by simp
  define t1 where "t1 = t\<lparr>t_attempts := ?n, t_lastError := Some (e ?n),
      t_effects := t_effects t @ effs
        @ (if ?n < maxRetries opts then retryEffects opts (snipe_id (t_snipe t)) ?n (e ?n)
           else [])\<rparr>"
  have turn: "loopTurn opts nw (c, t) = (c1, t1)"
    unfolding t1_def by (rule loopTurn_fail [OF Suc.prems(1) lt att'])
  have run: "runCall opts nw (c1, t1) = (c', E, r)"
    using Suc.prems(6) Suc.prems(1) turn by (simp add: runCall_turn)
  have m: "m = maxRetries opts - t_attempts t1"
    using Suc.hyps(2) by (simp add: t1_def)
  have p: "t_result t1 = None" "t_world t1 = world" "t_snipe t1 = snipe"
    "t_startTime t1 = st" "t_attempts t1 \<le> maxRetries opts"
    using Suc.prems lt by (simp_all add: t1_def)
  note IH = Suc.hyps(1) [OF m p run]
  have noretry: "filter is_retry effs = []"
    using attemptSnipe_no_retry [of opts nw "world ?n" snipe st ?n c] att by simp
  have effs1: "filter is_retry (t_effects t1)
      = filter is_retry (t_effects t)
        @ (if ?n < maxRetries opts then retryEffects opts (snipe_id snipe) ?n (e ?n) else [])"
    using noretry Suc.prems(3) by (simp add: t1_def filter_retryEffects)
  have upt: "[?n..<maxRetries opts]
      = (if ?n < maxRetries opts then ?n # [Suc ?n..<maxRetries opts] else [])"
    by (simp add: upt_conv_Cons)
  have a1: "t_attempts t1 = ?n" and l1: "t_lastError t1 = Some (e ?n)"
    by (simp_all add: t1_def)
  have err: "error r = Some (e (maxRetries opts))"
    using IH a1 l1 by (cases "?n = maxRetries opts") simp_all
  have tr: "filter is_retry E
      = filter is_retry (t_effects t)
        @ concat (map (\<lambda>k. retryEffects opts (snipe_id snipe) k (e k)) [?n..<maxRetries opts])"
  proof (cases "?n < maxRetries opts")
    case True
    then show ?thesis using IH effs1 a1 by (simp add: upt_conv_Cons)
  next
    case False
    with lt have "?n = maxRetries opts" by simp
    then show ?thesis using IH effs1 a1 by simp
  qed
  show ?case
    using IH err tr lt by simp
qed

lemma worldDown_fails:
  "snd (snd (attemptSnipe opts nw (worldDown t) snipe st k c)) = Inl ''offline''"
  by (simp add: attemptSnipe_def getOrRestoreWallet_def swapWithWallet_def worldDown_def
      split: option.splits)


text \<open>
  Claim C5. When every attempt of a snipe fails, attempt \<open>k\<close> with the message
  \<open>e k\<close>, \<open>executeSingleSnipe\<close> returns a result with \<open>success = false\<close>,
  \<open>attempts = maxRetries\<close> and, when \<open>maxRetries\<close> is positive, the message of the last
  attempt as \<open>error\<close>. After each failed attempt \<open>k\<close> below \<open>maxRetries\<close> it
  announces and sleeps the delay \<open>min(retryDelay * 2^(k-1), maxRetryDelay)\<close>, and these
  are all its delays: none follows the last attempt, and the report of the failure is
  its last effect. An engine built without options has \<open>maxRetries = 20\<close>,
  \<open>retryDelay = 2000\<close> and \<open>maxRetryDelay = 5000\<close>.
\<close>

theorem always_failing_exhausts:
  assumes "\<forall>k c. 1 \<le> k \<and> k \<le> maxRetries opts \<longrightarrow>
             snd (snd (attemptSnipe opts nw (world k) snipe (dateNow (world 0)) k c)) = Inl (e k)"
    and "executeSingleSnipe opts nw world snipe cache = (cache', effs, r)"
  shows "success r = False \<and> attempts r = maxRetries opts
     \<and> (0 < maxRetries opts \<longrightarrow> error r = Some (e (maxRetries opts)))
     \<and> filter is_retry effs
         = concat (map (\<lambda>k. [Emit (snipe_id snipe)
                                 (Retrying k (min (retryDelay opts * 2 ^ (k - 1)) (maxRetryDelay opts))
                                    (e k)),
                               Sleep (min (retryDelay opts * 2 ^ (k - 1)) (maxRetryDelay opts))])
                     [1..<maxRetries opts])
     \<and> filter is_Sleep effs
         = map (\<lambda>k. Sleep (min (retryDelay opts * 2 ^ (k - 1)) (maxRetryDelay opts)))
             [1..<maxRetries opts]
     \<and> last effs = Emit (snipe_id snipe) (Failed r)
     \<and> newExecutionOptions defaultAppConfig noOptions
         = \<lparr>maxRetries = 20, retryDelay = 2000, maxRetryDelay = 5000,
            slippageTolerance = Num 10, executeInParallel = True\<rparr>"
proof -
  let ?t = "enterCall snipe world"
  have run: "runCall opts nw (cache, ?t) = (cache', effs, r)"
    using assms(2) by (simp add: executeSingleSnipe_def)
  have fails: "\<And>k c. 1 \<le> k \<Longrightarrow> k \<le> maxRetries opts \<Longrightarrow>
      snd (snd (attemptSnipe opts nw (world k) snipe (dateNow (world 0)) k c)) = Inl (e k)"
    using assms(1) by blast
  have init: "t_result ?t = None" "t_world ?t = world" "t_snipe ?t = snipe"
    "t_startTime ?t = dateNow (world 0)" "t_attempts ?t \<le> maxRetries opts"
    by (simp_all add: enterCall_def)
  note main = runCall_always_failing [where t = ?t and e = e, OF fails init run]
  have t0: "t_attempts ?t = 0" and e0: "filter is_retry (t_effects ?t) = []"
    by (simp_all add: enterCall_def)
  have retries: "filter is_retry effs
      = concat (map (\<lambda>k. retryEffects opts (snipe_id snipe) k (e k)) [1..<maxRetries opts])"
    using main t0 e0 by simp
  have "filter is_Sleep effs = filter is_Sleep (filter is_retry effs)"
    by (simp only: filter_Sleep_retry)
  also have "\<dots> = map (\<lambda>k. Sleep (backoff opts k)) [1..<maxRetries opts]"
    unfolding retries by (rule filter_Sleep_retries)
  finally have sleeps: "filter is_Sleep effs = map (\<lambda>k. Sleep (backoff opts k)) [1..<maxRetries opts]" .
  have defaults: "newExecutionOptions defaultAppConfig noOptions
         = \<lparr>maxRetries = 20, retryDelay = 2000, maxRetryDelay = 5000,
            slippageTolerance = Num 10, executeInParallel = True\<rparr>"
    by (simp add: newExecutionOptions_def defaultAppConfig_def noOptions_def or_default_def
        js_or_def nullish_def)
  have err: "0 < maxRetries opts \<longrightarrow> error r = Some (e (maxRetries opts))"
    using main t0 by simp
  show ?thesis
    using main err retries sleeps defaults
    by (simp add: retryEffects_def backoff_def)
qed

theorem always_failing_exhausts_witness:
  "success (snd (snd (executeSingleSnipe opts3 REGTEST (worldsABC 1) (snipeOf ''B'' True) Map.empty)))
     = False
   \<and> attempts (snd (snd (executeSingleSnipe opts3 REGTEST (worldsABC 1) (snipeOf ''B'' True) Map.empty)))
     = 3
   \<and> error (snd (snd (executeSingleSnipe opts3 REGTEST (worldsABC 1) (snipeOf ''B'' True) Map.empty)))
     = Some ''offline''
   \<and> filter is_Sleep
       (fst (snd (executeSingleSnipe opts3 REGTEST (worldsABC 1) (snipeOf ''B'' True) Map.empty)))
     = [Sleep 2000, Sleep 4000]"
proof -
  let ?x = "executeSingleSnipe opts3 REGTEST (worldsABC 1) (snipeOf ''B'' True) Map.empty"
  have h: "\<forall>k c. 1 \<le> k \<and> k \<le> maxRetries opts3 \<longrightarrow>
      snd (snd (attemptSnipe opts3 REGTEST (worldsABC 1 k) (snipeOf ''B'' True)
                  (dateNow (worldsABC 1 0)) k c)) = Inl ''offline''"
    by (simp add: worldsABC_def worldDown_fails)
  have x: "?x = (fst ?x, fst (snd ?x), snd (snd ?x))"
    by simp
  have o: "maxRetries opts3 = 3" "retryDelay opts3 = 2000" "maxRetryDelay opts3 = 5000"
    by (simp_all add: opts3_def newExecutionOptions_def defaultAppConfig_def noOptions_def
        or_default_def)
  have u: "[Suc 0..<3] = [Suc 0, 2]"
    by code_simp
  show ?thesis
    using always_failing_exhausts [where e = "\<lambda>k. ''offline''", OF h x]
    by (simp add: o u)
qed

subsection \<open>The minimum output of a submitted swap\<close>

lemma swapWithWallet_submit:
  assumes "swapWithWallet opts w snipe st n wallet = (effs, r)" and "Submit p \<in> set effs"
  shows "\<exists>pool simulation rest.
          effs = Emit (snipe_id snipe) (PoolFound pool)
                 # Emit (snipe_id snipe) (SwapSimulated simulation) # Submit p # rest
          \<and> toBigInt (numberToString w) (minOutput opts simulation) = Inr (minAmountOut p)"
  using assms
  by (auto simp: swapWithWallet_def Let_def split: sum.splits option.splits)

lemma opts0_tolerance:
  "slippageTolerance opts0 = Num 10"
  by (simp add: opts0_def newExecutionOptions_def noOptions_def js_or_def)

lemma optsTolerance_tolerance:
  "tol \<noteq> 0 \<Longrightarrow> slippageTolerance (optsTolerance tol) = Num tol"
  by (simp add: optsTolerance_def newExecutionOptions_def noOptions_def js_or_def)

text \<open>
  The rounding of doubles shows in the minimum output: a tolerance of 7 on an output of
  1000 gives 929, not 930; a tolerance of 30 on an output of 90 gives 62, not 63; and
  the default tolerance of 10 on an output of 8507216452428451 gives
  7656494807185606, one more than the exact product's floor.
\<close>

lemma minOutput_examples:
  "minOutput (optsTolerance 7) \<lparr>sim_amountOut = Some (Num 1000)\<rparr> = Num 929"
  "minOutput (optsTolerance 30) \<lparr>sim_amountOut = Some (Num 90)\<rparr> = Num 62"
  "minOutput opts0 \<lparr>sim_amountOut = Some (Num 8507216452428451)\<rparr> = Num 7656494807185606"
  "minOutput opts0 \<lparr>sim_amountOut = Some (Num 1000)\<rparr> = Num 900"
  "minOutput opts0 \<lparr>sim_amountOut = Some (Num 1005)\<rparr> = Num 904"
  by (simp_all add: minOutput_7_1000(2) minOutput_30_90(2) minOutput_10_big(2)
      minOutput_10_1000(2) minOutput_10_1005(2) opts0_tolerance optsTolerance_tolerance)

lemma attemptA:
  "fst (snd (attemptSnipe opts0 REGTEST (worldSimulating 1005 1) (snipeOf ''A'' True) 0 1 Map.empty))
    = [Emit ''A'' (PoolFound (poolOf ''A'')),
       Emit ''A'' (SwapSimulated \<lparr>sim_amountOut = Some (Num 1005)\<rparr>),
       Submit \<lparr>swap_poolId = ''pool-A'', swap_assetInTokenPublicKey = ''BTC'',
               swap_assetOutTokenPublicKey = ''token-A'', swap_amountIn = 50000000,
               minAmountOut = 904, maxSlippageBps = Num 1000\<rparr>,
       Emit ''A'' (SwapExecuted swapped),
       Emit ''A'' (Completed
         (successResult (worldSimulating 1005 1) (snipeOf ''A'' True) 0 1 (Num 50000000)
            \<lparr>sim_amountOut = Some (Num 1005)\<rparr> swapped))]"
proof -
  have m: "minOutput opts0 \<lparr>sim_amountOut = Some (Num 1005)\<rparr> = Num 904"
    by (rule minOutput_examples(5))
  have b: "toBigInt str (Num 904) = Inr 904" "toBigInt str (Num 50000000) = Inr 50000000" for str
    by (simp_all add: toBigInt_def)
  have d: "maxSlippageBps_of = js_mul (slippageTolerance opts0) (Num 100) \<Longrightarrow> maxSlippageBps_of = Num 1000"
    for maxSlippageBps_of
    by (simp add: opts0_tolerance maxSlippageBps_10)
  show ?thesis
    by (simp add: attemptSnipe_def getOrRestoreWallet_def swapWithWallet_def worldSimulating_def
        worldUp_def snipeOf_def poolOf_def poolsOf_def poolMatches_def amountInSats_half m b
        opts0_tolerance maxSlippageBps_10 Let_def)
qed

text \<open>
  Claim C9, as amended. Whenever an attempt submits a swap, it has found a pool and
  simulated the swap just before, and the minimum output it submits is the floor of the
  double \<open>(amountOut || 0) * (1 - slippageTolerance / 100)\<close>, where every operation
  rounds to the nearest double, \<open>amountOut\<close> is the output of that simulation, and
  \<open>slippageTolerance\<close> is the engine's execution option, a percentage that is 10 when
  the option is absent, 0 or \<open>NaN\<close>. In particular that product is then a finite
  number.
\<close>

theorem submitted_minAmountOut:
  assumes "attemptSnipe opts nw w snipe st n cache = (cache', effs, r)"
    and "Submit p \<in> set effs"
  shows "(\<exists>pool simulation rest x.
          effs = Emit (snipe_id snipe) (PoolFound pool)
                 # Emit (snipe_id snipe) (SwapSimulated simulation) # Submit p # rest
          \<and> js_mul (js_or (sim_amountOut simulation) (Num 0))
                    (js_sub (Num 1) (js_div (slippageTolerance opts) (Num 100))) = Num x
          \<and> minAmountOut p = \<lfloor>x\<rfloor>)
     \<and> slippageTolerance (newExecutionOptions cfg options)
         = js_or (opt_slippageTolerance options) (Num 10)"
proof -
  obtain c1 wallet where "swapWithWallet opts w snipe st n wallet = (effs, r)"
    using assms
    by (auto simp: attemptSnipe_def split: prod.splits sum.splits)
  from swapWithWallet_submit [OF this assms(2)] obtain pool simulation rest where
    e: "effs = Emit (snipe_id snipe) (PoolFound pool)
                 # Emit (snipe_id snipe) (SwapSimulated simulation) # Submit p # rest"
    and b: "toBigInt (numberToString w) (minOutput opts simulation) = Inr (minAmountOut p)"
    by blast
  from b obtain x where
    "js_mul (js_or (sim_amountOut simulation) (Num 0))
            (js_sub (Num 1) (js_div (slippageTolerance opts) (Num 100))) = Num x"
    and "minAmountOut p = \<lfloor>x\<rfloor>"
    unfolding minOutput_def toBigInt_floor by blast
  with e show ?thesis
    by (simp add: newExecutionOptions_def)
qed

theorem submitted_minAmountOut_witness:
  "Submit \<lparr>swap_poolId = ''pool-A'', swap_assetInTokenPublicKey = ''BTC'',
            swap_assetOutTokenPublicKey = ''token-A'', swap_amountIn = 50000000,
            minAmountOut = 904, maxSlippageBps = Num 1000\<rparr>
     \<in> set (fst (snd (attemptSnipe opts0 REGTEST (worldSimulating 1005 1) (snipeOf ''A'' True)
                         0 1 Map.empty)))
   \<and> js_mul (Num 1005) (js_sub (Num 1) (js_div (slippageTolerance opts0) (Num 100)))
       = Num (1809 / 2)
   \<and> (904::int) = \<lfloor>(1809 / 2)::rat\<rfloor>"
proof -
  let ?x = "attemptSnipe opts0 REGTEST (worldSimulating 1005 1) (snipeOf ''A'' True) 0 1 Map.empty"
  let ?p = "\<lparr>swap_poolId = ''pool-A'', swap_assetInTokenPublicKey = ''BTC'',
            swap_assetOutTokenPublicKey = ''token-A'', swap_amountIn = 50000000,
            minAmountOut = 904, maxSlippageBps = Num 1000\<rparr>"
  have x: "?x = (fst ?x, fst (snd ?x), snd (snd ?x))"
    by simp
  have m: "Submit ?p \<in> set (fst (snd ?x))"
    unfolding attemptA by simp
  obtain pool simulation rest y where
    e: "fst (snd ?x) = Emit (snipe_id (snipeOf ''A'' True)) (PoolFound pool)
          # Emit (snipe_id (snipeOf ''A'' True)) (SwapSimulated simulation) # Submit ?p # rest"
    and f: "js_mul (js_or (sim_amountOut simulation) (Num 0))
                   (js_sub (Num 1) (js_div (slippageTolerance opts0) (Num 100))) = Num y"
    and g: "minAmountOut ?p = \<lfloor>y\<rfloor>"
    using submitted_minAmountOut [OF x m] by blast
  from e have s: "simulation = \<lparr>sim_amountOut = Some (Num 1005)\<rparr>"
    unfolding attemptA by simp
  have k: "js_mul (js_or (sim_amountOut simulation) (Num 0))
                  (js_sub (Num 1) (js_div (slippageTolerance opts0) (Num 100))) = Num (1809 / 2)"
    by (rule minOutput_10_1005(1)) (simp_all add: s opts0_tolerance)
  with f have y: "y = 1809 / 2"
    by simp
  from k s have "js_mul (Num 1005) (js_sub (Num 1) (js_div (slippageTolerance opts0) (Num 100)))
       = Num (1809 / 2)"
    by (simp add: js_or_def)
  with m g y show ?thesis
    by simp
qed

text \<open>
  Claim C9 as stated fails: with a simulated output of 1005 and the default tolerance of
  10 the engine submits a minimum output of 904, which is neither
  \<open>1005 * (1 - 10)\<close> nor, reading the tolerance as a percentage, \<open>1005 * (1 - 10/100)\<close>.
\<close>

theorem minAmountOut_counterexample:
  "Submit \<lparr>swap_poolId = ''pool-A'', swap_assetInTokenPublicKey = ''BTC'',
            swap_assetOutTokenPublicKey = ''token-A'', swap_amountIn = 50000000,
            minAmountOut = 904, maxSlippageBps = Num 1000\<rparr>
     \<in> set (fst (snd (attemptSnipe opts0 REGTEST (worldSimulating 1005 1) (snipeOf ''A'' True)
                         0 1 Map.empty)))
   \<and> Emit ''A'' (SwapSimulated \<lparr>sim_amountOut = Some (Num 1005)\<rparr>)
     \<in> set (fst (snd (attemptSnipe opts0 REGTEST (worldSimulating 1005 1) (snipeOf ''A'' True)
                         0 1 Map.empty)))
   \<and> slippageTolerance opts0 = Num 10
   \<and> (904::rat) \<noteq> 1005 * (1 - 10)
   \<and> (904::rat) \<noteq> 1005 * (1 - 10 / 100)"
  unfolding attemptA
  by (simp add: opts0_tolerance)

subsection \<open>Calls that share the wallet cache\<close>

lemma getOrRestoreWallet_other:
  "k \<noteq> snipe_id snipe \<Longrightarrow> fst (getOrRestoreWallet nw w snipe c) k = c k"
  by (simp add: getOrRestoreWallet_def split: option.splits sum.splits)

lemma getOrRestoreWallet_own:
  assumes "c1 (snipe_id snipe) = c2 (snipe_id snipe)"
  shows "snd (getOrRestoreWallet nw w snipe c1) = snd (getOrRestoreWallet nw w snipe c2)"
    and "fst (getOrRestoreWallet nw w snipe c1) (snipe_id snipe)
         = fst (getOrRestoreWallet nw w snipe c2) (snipe_id snipe)"
  using assms by (simp_all add: getOrRestoreWallet_def split: option.splits sum.splits)

lemma attemptSnipe_cache:
  "fst (attemptSnipe opts nw w snipe st n c) = fst (getOrRestoreWallet nw w snipe c)"
  by (simp add: attemptSnipe_def split: prod.splits sum.splits)

lemma attemptSnipe_outcome:
  "snd (attemptSnipe opts nw w snipe st n c)
     = (case snd (getOrRestoreWallet nw w snipe c) of
          Inl e \<Rightarrow> ([], Inl e)
        | Inr wallet \<Rightarrow> swapWithWallet opts w snipe st n wallet)"
  by (simp add: attemptSnipe_def split: prod.splits sum.splits)

lemma attemptSnipe_other:
  "k \<noteq> snipe_id snipe \<Longrightarrow> fst (attemptSnipe opts nw w snipe st n c) k = c k"
  by (simp add: attemptSnipe_cache getOrRestoreWallet_other)

lemma attemptSnipe_own:
  assumes "c1 (snipe_id snipe) = c2 (snipe_id snipe)"
  shows "snd (attemptSnipe opts nw w snipe st n c1) = snd (attemptSnipe opts nw w snipe st n c2)"
    and "fst (attemptSnipe opts nw w snipe st n c1) (snipe_id snipe)
         = fst (attemptSnipe opts nw w snipe st n c2) (snipe_id snipe)"
  using getOrRestoreWallet_own [where ?c1.0 = c1 and ?c2.0 = c2 and snipe = snipe and nw = nw and w = w]
    assms
  by (simp_all add: attemptSnipe_cache attemptSnipe_outcome)

lemma loopTurn_cache:
  "fst (loopTurn opts nw (c, t))
     = (if t_result t = None \<and> t_attempts t < maxRetries opts
        then fst (attemptSnipe opts nw (t_world t (Suc (t_attempts t))) (t_snipe t)
                    (t_startTime t) (Suc (t_attempts t)) c)
        else c)"
  by (simp add: loopTurn_def Let_def split: prod.splits sum.splits)

lemma loopTurn_other:
  "k \<noteq> snipe_id (t_snipe t) \<Longrightarrow> fst (loopTurn opts nw (c, t)) k = c k"
  by (simp add: loopTurn_cache attemptSnipe_other)

lemma loopTurn_own:
  assumes "c1 (snipe_id (t_snipe t)) = c2 (snipe_id (t_snipe t))"
  shows "snd (loopTurn opts nw (c1, t)) = snd (loopTurn opts nw (c2, t))"
    and "fst (loopTurn opts nw (c1, t)) (snipe_id (t_snipe t))
         = fst (loopTurn opts nw (c2, t)) (snipe_id (t_snipe t))"
proof -
  let ?a = "\<lambda>c. attemptSnipe opts nw (t_world t (Suc (t_attempts t))) (t_snipe t)
                    (t_startTime t) (Suc (t_attempts t)) c"
  obtain d1 x1 where a1: "?a c1 = (d1, x1)"
    by (cases "?a c1")
  obtain d2 x2 where a2: "?a c2 = (d2, x2)"
    by (cases "?a c2")
  have x: "x1 = x2"
    using attemptSnipe_own(1) [where ?c1.0 = c1 and ?c2.0 = c2 and snipe = "t_snipe t"
        and opts = opts and nw = nw and w = "t_world t (Suc (t_attempts t))"
        and st = "t_startTime t" and n = "Suc (t_attempts t)"] assms a1 a2
    by simp
  obtain effs out where x2: "x2 = (effs, out)"
    by (cases x2)
  show "snd (loopTurn opts nw (c1, t)) = snd (loopTurn opts nw (c2, t))"
    using a1 a2 x x2 by (cases out) (simp_all add: loopTurn_def Let_def)
  show "fst (loopTurn opts nw (c1, t)) (snipe_id (t_snipe t))
         = fst (loopTurn opts nw (c2, t)) (snipe_id (t_snipe t))"
    using attemptSnipe_own(2) [where ?c1.0 = c1 and ?c2.0 = c2 and snipe = "t_snipe t"
        and opts = opts and nw = nw and w = "t_world t (Suc (t_attempts t))"
        and st = "t_startTime t" and n = "Suc (t_attempts t)"] assms
    by (simp add: loopTurn_cache)
qed

lemma loopTurn_snipe:
  "t_snipe (snd (loopTurn opts nw s)) = t_snipe (snd s)"
  by (cases s) (simp add: loopTurn_fixed)

lemma turns_snipe:
  "t_snipe (snd ((loopTurn opts nw ^^ n) s)) = t_snipe (snd s)"
  by (induction n) (simp_all add: loopTurn_snipe)

lemma turnsLeft_decreases:
  "t_result (snd s) = None \<Longrightarrow> turnsLeft opts (snd (loopTurn opts nw s)) < turnsLeft opts (snd s)"
  by (cases s) (auto simp: turnsLeft_def loopTurn_def Let_def split: prod.splits sum.splits)

lemma loopTurn_idle:
  "t_result (snd s) \<noteq> None \<Longrightarrow> loopTurn opts nw s = s"
  by (cases s) (simp add: loopTurn_returned)

lemma turns_return:
  "turnsLeft opts (snd s) \<le> n \<Longrightarrow> t_result (snd ((loopTurn opts nw ^^ n) s)) \<noteq> None"
proof (induction n arbitrary: s)
  case 0
  then show ?case by (simp add: turnsLeft_def split: if_splits)
next
  case (Suc n)
  have "turnsLeft opts (snd (loopTurn opts nw s)) \<le> n"
  proof (cases "t_result (snd s) = None")
    case True
    from turnsLeft_decreases [OF this, of opts nw] Suc.prems show ?thesis by simp
  next
    case False
    then show ?thesis by (simp add: loopTurn_idle turnsLeft_def)
  qed
  from Suc.IH [OF this] show ?case
    by (simp add: funpow_swap1)
qed

lemma runCall_loopTurn:
  "runCall opts nw (loopTurn opts nw s) = runCall opts nw s"
  by (cases "t_result (snd s) = None") (simp_all add: runCall_turn loopTurn_idle)

lemma runCall_turns:
  "runCall opts nw ((loopTurn opts nw ^^ n) s) = runCall opts nw s"
  by (induction n) (simp_all add: runCall_loopTurn)

lemma turns_result:
  assumes "turnsLeft opts (snd s) \<le> n"
  shows "t_result (snd ((loopTurn opts nw ^^ n) s)) = Some (snd (snd (runCall opts nw s)))"
proof -
  obtain r where r: "t_result (snd ((loopTurn opts nw ^^ n) s)) = Some r"
    using turns_return [OF assms, of nw] by blast
  from runCall_returned [OF r, of opts nw] have "snd (snd (runCall opts nw s)) = r"
    by (simp add: runCall_turns)
  with r show ?thesis by simp
qed

lemma parTurn_length:
  "length (snd (parTurn opts nw j s)) = length (snd s)"
  by (cases s) (simp add: parTurn_def split: prod.splits)

lemma runSchedule_snoc:
  "runSchedule opts nw (sched @ [j]) s = parTurn opts nw j (runSchedule opts nw sched s)"
  by (simp add: runSchedule_def)

lemma runSchedule_solo:
  assumes d: "distinct (map (\<lambda>t. snipe_id (t_snipe t)) ts0)"
  shows "length (snd (runSchedule opts nw sched (c0, ts0))) = length ts0
     \<and> (\<forall>i<length ts0.
          snd (runSchedule opts nw sched (c0, ts0)) ! i
            = snd ((loopTurn opts nw ^^ count_list sched i) (c0, ts0 ! i))
          \<and> fst (runSchedule opts nw sched (c0, ts0)) (snipe_id (t_snipe (ts0 ! i)))
            = fst ((loopTurn opts nw ^^ count_list sched i) (c0, ts0 ! i))
                (snipe_id (t_snipe (ts0 ! i))))"
proof (induction sched rule: rev_induct)
  case Nil
  then show ?case by (simp add: runSchedule_def)
next
  case (snoc j sched)
  obtain c ts where s: "runSchedule opts nw sched (c0, ts0) = (c, ts)"
    by (cases "runSchedule opts nw sched (c0, ts0)")
  from snoc s have len: "length ts = length ts0"
    and inv: "\<And>i. i < length ts0 \<Longrightarrow>
        ts ! i = snd ((loopTurn opts nw ^^ count_list sched i) (c0, ts0 ! i))
        \<and> c (snipe_id (t_snipe (ts0 ! i)))
          = fst ((loopTurn opts nw ^^ count_list sched i) (c0, ts0 ! i))
              (snipe_id (t_snipe (ts0 ! i)))"
    by simp_all
  show ?case
  proof (cases "j < length ts")
    case False
    then have same: "runSchedule opts nw (sched @ [j]) (c0, ts0) = (c, ts)"
      by (simp add: runSchedule_snoc s parTurn_def)
    from False len have "\<And>i. i < length ts0 \<Longrightarrow> count_list (sched @ [j]) i = count_list sched i"
      by auto
    with same len inv show ?thesis by simp
  next
    case True
    let ?solo = "(loopTurn opts nw ^^ count_list sched j) (c0, ts0 ! j)"
    let ?id = "\<lambda>i. snipe_id (t_snipe (ts0 ! i))"
    obtain c1 t1 where turn: "loopTurn opts nw (c, ts ! j) = (c1, t1)"
      by (cases "loopTurn opts nw (c, ts ! j)")
    have next_state: "runSchedule opts nw (sched @ [j]) (c0, ts0) = (c1, ts[j := t1])"
      using True turn by (simp add: runSchedule_snoc s parTurn_def)
    from True len have j: "j < length ts0" by simp
    have tsj: "ts ! j = snd ?solo" and cj: "c (?id j) = fst ?solo (?id j)"
      using inv [OF j] by simp_all
    have idj: "snipe_id (t_snipe (ts ! j)) = ?id j"
      using tsj by (simp add: turns_snipe)
    have solo_pair: "?solo = (fst ?solo, ts ! j)"
      using tsj by (simp add: prod_eq_iff)
    have agree: "c (snipe_id (t_snipe (ts ! j))) = fst ?solo (snipe_id (t_snipe (ts ! j)))"
      using cj idj by simp
    have own1: "snd (loopTurn opts nw (c, ts ! j)) = snd (loopTurn opts nw (fst ?solo, ts ! j))"
      by (rule loopTurn_own(1) [where ?c1.0 = c and ?c2.0 = "fst ?solo" and t = "ts ! j"
            and opts = opts and nw = nw, OF agree])
    have own2: "fst (loopTurn opts nw (c, ts ! j)) (snipe_id (t_snipe (ts ! j)))
        = fst (loopTurn opts nw (fst ?solo, ts ! j)) (snipe_id (t_snipe (ts ! j)))"
      by (rule loopTurn_own(2) [where ?c1.0 = c and ?c2.0 = "fst ?solo" and t = "ts ! j"
            and opts = opts and nw = nw, OF agree])
    have step: "(loopTurn opts nw ^^ Suc (count_list sched j)) (c0, ts0 ! j)
        = loopTurn opts nw (fst ?solo, ts ! j)"
      using solo_pair by simp
    have t1: "t1 = snd ((loopTurn opts nw ^^ Suc (count_list sched j)) (c0, ts0 ! j))"
      using own1 turn step by simp
    have c1j: "c1 (?id j) = fst ((loopTurn opts nw ^^ Suc (count_list sched j)) (c0, ts0 ! j)) (?id j)"
      using own2 turn step idj by simp
    have others: "\<And>i. i < length ts0 \<Longrightarrow> i \<noteq> j \<Longrightarrow> c1 (?id i) = c (?id i)"
    proof -
      fix i assume i: "i < length ts0" and ne: "i \<noteq> j"
      from d i j ne have "?id i \<noteq> ?id j"
        by (simp add: distinct_conv_nth)
      then have "?id i \<noteq> snipe_id (t_snipe (ts ! j))"
        using idj by simp
      from loopTurn_other [OF this, of opts nw c] turn show "c1 (?id i) = c (?id i)"
        by simp
    qed
    have "\<And>i. i < length ts0 \<Longrightarrow>
        (ts[j := t1]) ! i = snd ((loopTurn opts nw ^^ count_list (sched @ [j]) i) (c0, ts0 ! i))
        \<and> c1 (?id i) = fst ((loopTurn opts nw ^^ count_list (sched @ [j]) i) (c0, ts0 ! i)) (?id i)"
    proof -
      fix i assume i: "i < length ts0"
      show "(ts[j := t1]) ! i = snd ((loopTurn opts nw ^^ count_list (sched @ [j]) i) (c0, ts0 ! i))
        \<and> c1 (?id i) = fst ((loopTurn opts nw ^^ count_list (sched @ [j]) i) (c0, ts0 ! i)) (?id i)"
      proof (cases "i = j")
        case True
        then show ?thesis using t1 c1j len j by simp
      next
        case False
        then show ?thesis using inv [OF i] others [OF i False] len i by simp
      qed
    qed
    with next_state len show ?thesis by simp
  qed
qed

lemma those_map_Some:
  "those (map Some xs) = Some xs"
  by (induction xs) simp_all

lemma enterCalls_nth:
  "i < length sns \<Longrightarrow> enterCalls worlds sns ! i = enterCall (sns ! i) (worlds i)"
  by (simp add: enterCalls_def)

lemma enterCalls_ids:
  "map (\<lambda>t. snipe_id (t_snipe t)) (enterCalls worlds sns) = map snipe_id sns"
  by (rule nth_equalityI) (simp_all add: enterCalls_def enterCall_def)

lemma executeSnipesInParallel_isolated:
  assumes d: "distinct (map snipe_id sns)"
    and fair: "\<forall>i<length sns. maxRetries opts < count_list sched i"
  shows "snd (executeSnipesInParallel opts nw worlds sched c0 sns)
     = Some (map (\<lambda>i. snd (snd (executeSingleSnipe opts nw (worlds i) (sns ! i) c0)))
               [0..<length sns])"
proof -
  let ?ts0 = "enterCalls worlds sns"
  have d': "distinct (map (\<lambda>t. snipe_id (t_snipe t)) ?ts0)"
    using d by (simp add: enterCalls_ids)
  have len0: "length ?ts0 = length sns"
    by (simp add: enterCalls_def)
  obtain c ts where s: "runSchedule opts nw sched (c0, ?ts0) = (c, ts)"
    by (cases "runSchedule opts nw sched (c0, ?ts0)")
  from runSchedule_solo [OF d', of opts nw sched c0] s len0
  have len: "length ts = length sns"
    and nth: "\<And>i. i < length sns \<Longrightarrow>
        ts ! i = snd ((loopTurn opts nw ^^ count_list sched i) (c0, ?ts0 ! i))"
    by simp_all
  have res: "\<And>i. i < length sns \<Longrightarrow>
      t_result (ts ! i) = Some (snd (snd (executeSingleSnipe opts nw (worlds i) (sns ! i) c0)))"
  proof -
    fix i assume i: "i < length sns"
    have "turnsLeft opts (snd (c0, ?ts0 ! i)) \<le> count_list sched i"
      using fair i by (auto simp add: enterCalls_nth enterCall_def turnsLeft_def Suc_le_eq)
    from turns_result [OF this, of nw] nth [OF i] i
    show "t_result (ts ! i) = Some (snd (snd (executeSingleSnipe opts nw (worlds i) (sns ! i) c0)))"
      by (simp add: executeSingleSnipe_def enterCalls_nth)
  qed
  have "map t_result ts
      = map Some (map (\<lambda>i. snd (snd (executeSingleSnipe opts nw (worlds i) (sns ! i) c0)))
                    [0..<length sns])"
  proof (rule nth_equalityI)
    show "length (map t_result ts)
        = length (map Some (map (\<lambda>i. snd (snd (executeSingleSnipe opts nw (worlds i) (sns ! i) c0)))
                    [0..<length sns]))"
      using len by simp
  next
    fix i assume "i < length (map t_result ts)"
    then have i: "i < length sns"
      using len by simp
    then show "map t_result ts ! i
        = map Some (map (\<lambda>i. snd (snd (executeSingleSnipe opts nw (worlds i) (sns ! i) c0)))
                    [0..<length sns]) ! i"
      using len res [OF i] by simp
  qed
  then have "those (map t_result ts)
      = Some (map (\<lambda>i. snd (snd (executeSingleSnipe opts nw (worlds i) (sns ! i) c0)))
                [0..<length sns])"
    by (simp only: those_map_Some)
  then show ?thesis
    by (simp add: executeSnipesInParallel_def s)
qed

lemma swapWithWallet_result_id:
  "swapWithWallet opts w snipe st n wallet = (effs, Inr r) \<Longrightarrow> snipeId r = snipe_id snipe"
  by (auto simp: swapWithWallet_def successResult_def Let_def split: sum.splits option.splits)

lemma attemptSnipe_result_id:
  "attemptSnipe opts nw w snipe st n c = (c1, effs, Inr r) \<Longrightarrow> snipeId r = snipe_id snipe"
  by (auto simp: attemptSnipe_def split: prod.splits sum.splits dest: swapWithWallet_result_id)

lemma loopTurn_result_named:
  assumes "result_named (snd s)"
  shows "result_named (snd (loopTurn opts nw s))"
proof (cases s)
  case (Pair c t)
  show ?thesis
  proof (cases "t_result t = None")
    case False
    with assms Pair show ?thesis by (simp add: loopTurn_returned)
  next
    case True
    show ?thesis
    proof (cases "t_attempts t < maxRetries opts")
      case False
      with True Pair show ?thesis
        by (simp add: loopTurn_exhausted result_named_def failureResult_def)
    next
      case lt: True
      obtain c1 effs out where a:
        "attemptSnipe opts nw (t_world t (Suc (t_attempts t))) (t_snipe t) (t_startTime t)
           (Suc (t_attempts t)) c = (c1, effs, out)"
        by (metis prod_cases3)
      show ?thesis
      proof (cases out)
        case (Inl e)
        with a True lt Pair show ?thesis
          by (simp add: loopTurn_fail result_named_def)
      next
        case (Inr r)
        with a have "snipeId r = snipe_id (t_snipe t)"
          by (simp add: attemptSnipe_result_id)
        with a Inr True lt Pair show ?thesis
          by (simp add: loopTurn_def result_named_def Let_def)
      qed
    qed
  qed
qed

lemma runCall_result_id:
  "result_named (snd s) \<Longrightarrow> snipeId (snd (snd (runCall opts nw s))) = snipe_id (t_snipe (snd s))"
proof (induction opts nw s rule: runCall.induct)
  case (1 opts nw s)
  show ?case
  proof (cases "t_result (snd s)")
    case None
    from "1.IH" [OF None loopTurn_result_named [OF "1.prems"]] None show ?thesis
      by (simp add: runCall_turn loopTurn_snipe)
  next
    case (Some r)
    with "1.prems" show ?thesis
      by (simp add: runCall_returned result_named_def)
  qed
qed

lemma executeSingleSnipe_result_id:
  "snipeId (snd (snd (executeSingleSnipe opts nw world snipe c))) = snipe_id snipe"
  using runCall_result_id [of "(c, enterCall snipe world)" opts nw]
  by (simp add: executeSingleSnipe_def result_named_def enterCall_def)

text \<open>
  Claim C1. When an engine that is not already executing runs the active snipes of a
  profile in parallel mode, and the snipes have distinct ids, then for every schedule
  that lets each call take its turns the batch returns normally with exactly one result
  per active snipe, in the order of the profile's list, each carrying the id of its
  snipe. Each result is the one \<open>executeSingleSnipe\<close> gives for that snipe run on its
  own, from the same wallet cache, against what its own calls meet: it depends neither
  on the schedule nor on the other snipes, whether they succeed or exhaust their
  attempts.
\<close>

theorem executeSnipes_parallel_isolated:
  assumes "\<not> isExecuting eng" and "executeInParallel (executionOptions eng)"
    and "distinct (map snipe_id (filter isActive (snipes profile)))"
    and "\<forall>i < length (filter isActive (snipes profile)).
           maxRetries (executionOptions eng) < count_list schedule i"
  shows "snd (executeSnipes nw worlds schedule eng profile)
       = Some (Inr (map (\<lambda>i. snd (snd (executeSingleSnipe (executionOptions eng) nw (worlds i)
                                           (filter isActive (snipes profile) ! i)
                                           (activeWallets eng))))
                      [0..<length (filter isActive (snipes profile))]))
     \<and> (\<forall>i < length (filter isActive (snipes profile)).
          snipeId (snd (snd (executeSingleSnipe (executionOptions eng) nw (worlds i)
                               (filter isActive (snipes profile) ! i) (activeWallets eng))))
            = snipe_id (filter isActive (snipes profile) ! i))"
proof -
  let ?active = "filter isActive (snipes profile)"
  from executeSnipesInParallel_isolated [OF assms(3) assms(4), of nw worlds "activeWallets eng"]
  have "snd (executeSnipesInParallel (executionOptions eng) nw worlds schedule (activeWallets eng)
              ?active)
      = Some (map (\<lambda>i. snd (snd (executeSingleSnipe (executionOptions eng) nw (worlds i)
                                    (?active ! i) (activeWallets eng))))
                [0..<length ?active])" .
  then obtain c1 where par:
    "executeSnipesInParallel (executionOptions eng) nw worlds schedule (activeWallets eng) ?active
      = (c1, Some (map (\<lambda>i. snd (snd (executeSingleSnipe (executionOptions eng) nw (worlds i)
                                    (?active ! i) (activeWallets eng))))
                [0..<length ?active]))"
    by (cases "executeSnipesInParallel (executionOptions eng) nw worlds schedule
                 (activeWallets eng) ?active") simp
  have "snd (executeSnipes nw worlds schedule eng profile)
       = Some (Inr (map (\<lambda>i. snd (snd (executeSingleSnipe (executionOptions eng) nw (worlds i)
                                           (?active ! i) (activeWallets eng))))
                      [0..<length ?active]))"
    using assms(1,2) par
    by (simp add: executeSnipes_def Let_def)
  then show ?thesis
    by (simp add: executeSingleSnipe_result_id)
qed

lemmas run_defs = executeSingleSnipe_def runCall.simps enterCall_def loopTurn_def
      attemptSnipe_def getOrRestoreWallet_def swapWithWallet_def worldsABC_def worldUp_def
      worldDown_def snipeOf_def poolOf_def poolsOf_def poolMatches_def opts3_def
      newExecutionOptions_def defaultAppConfig_def noOptions_def or_default_def nullish_def
      js_or_def toNumber_def toBigInt_def backoff_def failureResult_def successResult_def
      swapped_def amountInSats_half actualPrice_1000 slippage_none Let_def

lemma opts3_minOutput:
  "minOutput opts3 \<lparr>sim_amountOut = Some (Num 1000)\<rparr> = Num 900"
  by (rule minOutput_10_1000(2))
    (simp_all add: opts3_def newExecutionOptions_def noOptions_def js_or_def)

lemma soloA:
  "snd (snd (executeSingleSnipe opts3 REGTEST (worldsABC 0) (snipeOf ''A'' True) Map.empty))
    = \<lparr>snipeId = ''A'', success = True, transactionHash = Some ''tx'',
       tokensReceived = Some ''1000'', actualPrice = Some (Num 50000), slippage = Some (Num 0),
       error = None, executionTime = 1, attempts = 1\<rparr>"
  by (simp add: run_defs minOutput_10_1000(2))

lemma soloB:
  "snd (snd (executeSingleSnipe opts3 REGTEST (worldsABC (Suc 0)) (snipeOf ''B'' True) Map.empty))
    = \<lparr>snipeId = ''B'', success = False, transactionHash = None, tokensReceived = None,
       actualPrice = None, slippage = None, error = Some ''offline'', executionTime = 4,
       attempts = 3\<rparr>"
  by (simp add: run_defs minOutput_10_1000(2))

lemma soloC:
  "snd (snd (executeSingleSnipe opts3 REGTEST (worldsABC (Suc (Suc 0))) (snipeOf ''C'' True) Map.empty))
    = \<lparr>snipeId = ''C'', success = True, transactionHash = Some ''tx'',
       tokensReceived = Some ''1000'', actualPrice = Some (Num 50000), slippage = Some (Num 0),
       error = None, executionTime = 1, attempts = 1\<rparr>"
  by (simp add: run_defs minOutput_10_1000(2))

lemma activeABC:
  "filter isActive (snipes profileABC) = [snipeOf ''A'' True, snipeOf ''B'' True, snipeOf ''C'' True]"
  by (simp add: profileABC_def snipeOf_def)

theorem executeSnipes_parallel_isolated_witness:
  "snd (executeSnipes REGTEST worldsABC roundRobin engine3 profileABC)
    = Some (Inr [\<lparr>snipeId = ''A'', success = True, transactionHash = Some ''tx'',
                   tokensReceived = Some ''1000'', actualPrice = Some (Num 50000),
                   slippage = Some (Num 0), error = None, executionTime = 1, attempts = 1\<rparr>,
                 \<lparr>snipeId = ''B'', success = False, transactionHash = None,
                   tokensReceived = None, actualPrice = None, slippage = None,
                   error = Some ''offline'', executionTime = 4, attempts = 3\<rparr>,
                 \<lparr>snipeId = ''C'', success = True, transactionHash = Some ''tx'',
                   tokensReceived = Some ''1000'', actualPrice = Some (Num 50000),
                   slippage = Some (Num 0), error = None, executionTime = 1, attempts = 1\<rparr>])"
proof -
  have h1: "\<not> isExecuting engine3" and h2: "executeInParallel (executionOptions engine3)"
    by (simp_all add: engine3_def opts3_def newExecutionOptions_def noOptions_def nullish_def)
  have h3: "distinct (map snipe_id (filter isActive (snipes profileABC)))"
    by (simp add: activeABC snipeOf_def)
  have m: "maxRetries (executionOptions engine3) = 3"
    by (simp add: engine3_def opts3_def newExecutionOptions_def noOptions_def or_default_def)
  have h4: "\<forall>i < length (filter isActive (snipes profileABC)).
      maxRetries (executionOptions engine3) < count_list roundRobin i"
    by (simp add: activeABC m roundRobin_def less_Suc_eq)
  have e: "executionOptions engine3 = opts3" "activeWallets engine3 = Map.empty"
    by (simp_all add: engine3_def)
  have u: "[0..<length (filter isActive (snipes profileABC))] = [0, 1, 2]"
    by (simp add: activeABC upt_conv_Cons)
  show ?thesis
    using executeSnipes_parallel_isolated [OF h1 h2 h3 h4, of REGTEST worldsABC]
    by (simp add: u e activeABC soloA soloB soloC)
qed

end
